theory Spec2Isabelle
  imports Main "HOL-Library.Multiset"
begin

section \<open>Data model\<close>

text \<open>
  A shallow embedding of \<^verbatim>\<open>chimerascan/pipeline/find_discordant_reads.py\<close>.

  The module imports its constants and helpers from \<^verbatim>\<open>chimerascan.lib\<close>, which is not
  part of the sources at hand. Constants and record attributes are modelled from the
  specification's data model; helper functions whose behaviour the specification does not
  fix are parameters (the record \<open>externals\<close> below).
\<close>

text \<open>
  Modelled from the spec: the class \<^verbatim>\<open>DiscordantTags\<close> of \<^verbatim>\<open>chimerascan.lib.chimera\<close>
  is missing; the specification gives it as a closed enumeration of five values.
\<close>

datatype discordant_tag =
  CONCORDANT_TX | DISCORDANT_STRAND_TX | CONCORDANT_GENE | DISCORDANT_STRAND_GENE | DISCORDANT_GENE

text \<open>
  Modelled from the spec: the constants \<^verbatim>\<open>ORIENTATION_5P\<close> and \<^verbatim>\<open>ORIENTATION_3P\<close> of
  \<^verbatim>\<open>chimerascan.lib.chimera\<close> are missing; the specification gives the orientation as
  one of two values.
\<close>

datatype orientation = ORIENTATION_5P | ORIENTATION_3P

text \<open>
  Modelled from the spec: the tag keys \<^verbatim>\<open>DISCORDANT_TAG_NAME\<close> and \<^verbatim>\<open>ORIENTATION_TAG\<close>
  are missing constants. A record's tag list is a list of (key, value) pairs; \<open>AUX\<close> stands
  for every other key an aligner may have written.
\<close>

datatype tag_name = DISCORDANT_TAG_NAME | ORIENTATION_TAG | AUX string

datatype tag_value = TagD discordant_tag | TagO orientation | TagI int

text \<open>
  An alignment record (\<^verbatim>\<open>pysam.AlignedRead\<close>) with the attributes the specification lists:
  reference id, start, end, strand bit, unmapped flag, alignment score and the tag list.
\<close>

record read =
  tid :: int
  pos :: int
  aend :: int
  is_reverse :: bool
  is_unmapped :: bool
  score :: int
  tags :: "(tag_name \<times> tag_value) list"

text \<open>
  Modelled from the spec: the class \<^verbatim>\<open>TranscriptFeature\<close> is missing; a transcript has a
  reference id, a cluster id, a strand and a genomic reference id.
\<close>

record transcript =
  tx_tid :: int
  cluster_id :: int
  tx_strand :: bool
  genome_tid :: int

text \<open>
  A fragment (\<^verbatim>\<open>pe_reads\<close>): the alignments of mate 1 and the alignments of mate 2.
\<close>

type_synonym fragment = "read list \<times> read list"

type_synonym pair = "read \<times> read"

text \<open>
  The two dictionaries of the binner are \<^verbatim>\<open>defaultdict(lambda: ([], []))\<close>. They are
  association lists with distinct keys, built in the order of first insertion.
\<close>

type_synonym 'k bins = "('k \<times> read list \<times> read list) list"

datatype py_error = AssertionError | KeyError | AttributeError | TypeError | OtherError string

text \<open>The four output files; each channel holds the records written to it, in order.\<close>

datatype handle = Pairedfh | Discordantfh | Unpairedfh | Multimapfh

type_synonym channels = "handle \<Rightarrow> read list"

text \<open>
  Python passes arguments untyped, and the dispatcher calls \<^verbatim>\<open>write_pe_reads\<close> with a file
  handle where the function expects the mate lists and with the mate lists where it
  expects the handle (lines 270 and 274). A value handed to \<^verbatim>\<open>write_pe_reads\<close> is therefore
  either an iterable of mate lists or an output file.
\<close>

datatype pyobj = PeReads "read list list" | Samfile handle

text \<open>
  The helpers of \<^verbatim>\<open>chimerascan.lib\<close> and of pysam that the specification leaves open:
  \<^item> \<open>transcript_to_genome_pos tid pos tid_tx_genome_map\<close> projects a transcript position to
    (genome reference, strand, genome position);
  \<^item> \<open>same_strand library_type\<close> says whether the library expects both mates on one strand;
  \<^item> \<open>get_orientation r library_type\<close> is the orientation of an alignment;
  \<^item> \<open>samfile_iter h\<close> is what iterating over an output file yields: an exception, or the
    list of the items;
  \<^item> \<open>iteritems d\<close> is the list of the buckets of a dictionary in the order in which
    \<^verbatim>\<open>d.iteritems()\<close> visits them, an order CPython does not promise.
\<close>

record ('l, 'g) externals =
  transcript_to_genome_pos :: "int \<Rightarrow> int \<Rightarrow> (int \<rightharpoonup> 'g) \<Rightarrow> int \<times> int \<times> int"
  same_strand :: "'l \<Rightarrow> bool"
  get_orientation :: "read \<Rightarrow> 'l \<Rightarrow> orientation"
  samfile_iter :: "handle \<Rightarrow> py_error + read list"
  iteritems :: "int bins \<Rightarrow> int bins"

section \<open>Helpers of \<^verbatim>\<open>chimerascan.lib.sam\<close>\<close>

text \<open>
  Modelled from the spec: \<^verbatim>\<open>copy_read\<close> is missing. It returns a fresh record with the
  attributes of its argument; with records as values the copy is the value itself.
\<close>

definition copy_read :: "read \<Rightarrow> read" where
  "copy_read r = r"

text \<open>
  Modelled from the spec: \<^verbatim>\<open>pair_reads\<close> is missing. The specification says that the
  classifier changes a record only by tag annotation and that the tag of a pair is written
  into the tag sets of both records: the given tags are appended to both tag lists. The two
  records are mutated in place; the model returns them.
\<close>

definition pair_reads :: "read \<Rightarrow> read \<Rightarrow> (tag_name \<times> tag_value) list \<Rightarrow> pair" where
  "pair_reads r1 r2 new_tags =
     (r1\<lparr>tags := tags r1 @ new_tags\<rparr>, r2\<lparr>tags := tags r2 @ new_tags\<rparr>)"

text \<open>
  Modelled from the spec: \<^verbatim>\<open>select_best_scoring_pairs\<close> is missing. Given candidate pairs,
  each with the sum of its two alignment scores as pair score, it returns the pairs that
  reach the maximum score, ties retained.
\<close>

definition pair_score :: "pair \<Rightarrow> int" where
  "pair_score p = score (fst p) + score (snd p)"

definition select_best_scoring_pairs :: "pair list \<Rightarrow> pair list" where
  "select_best_scoring_pairs pairs =
     (case pairs of
        [] \<Rightarrow> []
      | p # ps \<Rightarrow>
          (let best = fold (\<lambda>q m. max (pair_score q) m) ps (pair_score p)
           in filter (\<lambda>q. pair_score q = best) pairs))"

text \<open>
  \<^verbatim>\<open>r.opt(name)\<close> of pysam: the value of the first tag with that key, \<^verbatim>\<open>KeyError\<close> when
  the record has none.
\<close>

definition opt :: "read \<Rightarrow> tag_name \<Rightarrow> py_error + tag_value" where
  "opt r name = (case map_of (tags r) name of None \<Rightarrow> Inl KeyError | Some v \<Rightarrow> Inr v)"

section \<open>Multimap Resolver: \<^verbatim>\<open>count_transcriptome_multimaps\<close> (lines 22-33)\<close>

text \<open>The key added to \<^verbatim>\<open>hits\<close> for one record (lines 30-32).\<close>

definition locus_key :: "('l, 'g) externals \<Rightarrow> (int \<rightharpoonup> 'g) \<Rightarrow> read \<Rightarrow> int \<times> int \<times> int" where
  "locus_key X tid_tx_genome_map r =
     (case transcript_to_genome_pos X (tid r) (pos r) tid_tx_genome_map of
        (left_tid, left_strand, left_pos) \<Rightarrow>
          (case transcript_to_genome_pos X (tid r) (aend r - 1) tid_tx_genome_map of
             (right_tid, right_strand, right_pos) \<Rightarrow> (left_tid, left_pos, right_pos)))"

text \<open>
  The loop over \<^verbatim>\<open>reads\<close>, with the set \<^verbatim>\<open>hits\<close> as accumulator. An unmapped record
  returns 0 at once; a mapped record whose \<^verbatim>\<open>tid\<close> is no key of the table fails the
  assertion.
\<close>

fun count_loop ::
  "('l, 'g) externals \<Rightarrow> (int \<rightharpoonup> 'g) \<Rightarrow> (int \<times> int \<times> int) set \<Rightarrow> read list \<Rightarrow> py_error + nat"
where
  "count_loop X tid_tx_genome_map hits [] = Inr (card hits)"
| "count_loop X tid_tx_genome_map hits (r # rs) =
     (if is_unmapped r then Inr 0
      else if tid_tx_genome_map (tid r) = None then Inl AssertionError
      else count_loop X tid_tx_genome_map (insert (locus_key X tid_tx_genome_map r) hits) rs)"

text \<open>The parameter \<^verbatim>\<open>bamfh\<close> of the source is unused and left out.\<close>

definition count_transcriptome_multimaps ::
  "('l, 'g) externals \<Rightarrow> read list \<Rightarrow> (int \<rightharpoonup> 'g) \<Rightarrow> py_error + nat"
where
  "count_transcriptome_multimaps X reads tid_tx_genome_map =
     count_loop X tid_tx_genome_map {} reads"

section \<open>Reference/Cluster Binner: \<^verbatim>\<open>map_reads_to_references\<close> (lines 35-54)\<close>

text \<open>
  \<^verbatim>\<open>pairs = d[k]; pairs[readnum].append(r)\<close> on a defaultdict: a missing key is created
  with two empty lists.
\<close>

fun append_read :: "'k \<Rightarrow> nat \<Rightarrow> read \<Rightarrow> 'k bins \<Rightarrow> 'k bins" where
  "append_read k readnum r [] = [(k, if readnum = 0 then ([r], []) else ([], [r]))]"
| "append_read k readnum r ((k', m1, m2) # d) =
     (if k' = k then (k', if readnum = 0 then (m1 @ [r], m2) else (m1, m2 @ [r])) # d
      else (k', m1, m2) # append_read k readnum r d)"

text \<open>The inner loop over the records of mate \<open>readnum\<close> (lines 42-53).\<close>

fun bin_reads ::
  "(int \<rightharpoonup> transcript) \<Rightarrow> nat \<Rightarrow> read list \<Rightarrow> int bins \<times> int bins \<Rightarrow> py_error + int bins \<times> int bins"
where
  "bin_reads tid_tx_map readnum [] (refdict, clusterdict) = Inr (refdict, clusterdict)"
| "bin_reads tid_tx_map readnum (r # rs) (refdict, clusterdict) =
     (if is_unmapped r then bin_reads tid_tx_map readnum rs (refdict, clusterdict)
      else
        (case tid_tx_map (tid r) of
           None \<Rightarrow> Inl AssertionError
         | Some tx \<Rightarrow>
             bin_reads tid_tx_map readnum rs
               (append_read (tid r) readnum r refdict,
                append_read (cluster_id tx) readnum r clusterdict)))"

definition map_reads_to_references ::
  "fragment \<Rightarrow> (int \<rightharpoonup> transcript) \<Rightarrow> py_error + int bins \<times> int bins"
where
  "map_reads_to_references pe_reads tid_tx_map =
     (case bin_reads tid_tx_map 0 (fst pe_reads) ([], []) of
        Inl e \<Rightarrow> Inl e
      | Inr d \<Rightarrow> bin_reads tid_tx_map 1 (snd pe_reads) d)"

section \<open>Cross-gene pairing (lines 56-94)\<close>

text \<open>
  \<^verbatim>\<open>classify_unpaired_reads\<close> assigns to \<^verbatim>\<open>r.tags\<close> of every record of the list it is
  given, so it changes the caller's records. The model returns the records after the loop
  first, then the two result lists. The result lists hold the same objects, so their
  members carry the new tags as well.
\<close>

fun classify_unpaired_loop ::
  "('l, 'g) externals \<Rightarrow> 'l \<Rightarrow> read list \<Rightarrow> read list \<times> read list \<times> read list \<Rightarrow>
   read list \<times> read list \<times> read list"
where
  "classify_unpaired_loop X library_type [] (seen, gene_hits_5p, gene_hits_3p) =
     (seen, gene_hits_5p, gene_hits_3p)"
| "classify_unpaired_loop X library_type (r # rs) (seen, gene_hits_5p, gene_hits_3p) =
     (let orient = get_orientation X r library_type;
          r' = r\<lparr>tags := tags r @ [(DISCORDANT_TAG_NAME, TagD DISCORDANT_GENE),
                                     (ORIENTATION_TAG, TagO orient)]\<rparr>
      in if orient = ORIENTATION_5P
         then classify_unpaired_loop X library_type rs (seen @ [r'], gene_hits_5p @ [r'], gene_hits_3p)
         else classify_unpaired_loop X library_type rs (seen @ [r'], gene_hits_5p, gene_hits_3p @ [r']))"

definition classify_unpaired_reads ::
  "('l, 'g) externals \<Rightarrow> read list \<Rightarrow> 'l \<Rightarrow> read list \<times> read list \<times> read list"
where
  "classify_unpaired_reads X reads library_type =
     classify_unpaired_loop X library_type reads ([], [], [])"

text \<open>The two nested loops over one combination (lines 88-93).\<close>

definition combo_pairs :: "read list \<Rightarrow> read list \<Rightarrow> pair list" where
  "combo_pairs r1_list r2_list =
     concat (map (\<lambda>r1. map (\<lambda>r2. pair_reads (copy_read r1) (copy_read r2) []) r2_list) r1_list)"

text \<open>
  \<^verbatim>\<open>find_discordant_pairs\<close> returns the pairs; the model returns with them the fragment's
  records as \<^verbatim>\<open>classify_unpaired_reads\<close> left them.
\<close>

definition find_discordant_pairs ::
  "('l, 'g) externals \<Rightarrow> fragment \<Rightarrow> 'l \<Rightarrow> pair list \<times> fragment"
where
  "find_discordant_pairs X pe_reads library_type =
     (case classify_unpaired_reads X (fst pe_reads) library_type of
        (mate1, r1_5p_gene_hits, r1_3p_gene_hits) \<Rightarrow>
          (case classify_unpaired_reads X (snd pe_reads) library_type of
             (mate2, r2_5p_gene_hits, r2_3p_gene_hits) \<Rightarrow>
               (combo_pairs r1_5p_gene_hits r2_3p_gene_hits @
                combo_pairs r1_3p_gene_hits r2_5p_gene_hits,
                (mate1, mate2))))"

section \<open>Pair Classifier: \<^verbatim>\<open>classify_read_pairs\<close> (lines 96-205)\<close>

text \<open>
  The body of the two innermost loops (lines 131-146 and 158-169, which differ in the two
  tags only). The state is \<^verbatim>\<open>found_pair\<close>, the list of concordant pairs and the list of
  discordant pairs.
\<close>

definition pair_step ::
  "bool \<Rightarrow> discordant_tag \<Rightarrow> discordant_tag \<Rightarrow> read \<Rightarrow> read \<Rightarrow>
   bool \<times> pair list \<times> pair list \<Rightarrow> bool \<times> pair list \<times> pair list"
where
  "pair_step same ctag dtag r1 r2 st =
     (case st of (found_pair, concordant_pairs, discordant_pairs) \<Rightarrow>
        (let strand_match = (same = (is_reverse r1 = is_reverse r2));
             cr1 = copy_read r1;
             cr2 = copy_read r2
         in if strand_match
            then (True,
                  concordant_pairs @ [pair_reads cr1 cr2 [(DISCORDANT_TAG_NAME, TagD ctag)]],
                  discordant_pairs)
            else (True,
                  concordant_pairs,
                  discordant_pairs @ [pair_reads cr1 cr2 [(DISCORDANT_TAG_NAME, TagD dtag)]])))"

text \<open>One bucket: the guard of lines 125 and 152, then the cross product.\<close>

definition bucket_step ::
  "bool \<Rightarrow> discordant_tag \<Rightarrow> discordant_tag \<Rightarrow> 'k \<times> read list \<times> read list \<Rightarrow>
   bool \<times> pair list \<times> pair list \<Rightarrow> bool \<times> pair list \<times> pair list"
where
  "bucket_step same ctag dtag bucket st =
     (case bucket of (k, m1, m2) \<Rightarrow>
        if length m1 = 0 \<or> length m2 = 0 then st
        else fold (\<lambda>r1. fold (\<lambda>r2. pair_step same ctag dtag r1 r2) m2) m1 st)"

text \<open>
  The loop over the buckets of a dictionary (lines 123 and 150), given in the order of the
  visit.
\<close>

definition pair_buckets ::
  "bool \<Rightarrow> discordant_tag \<Rightarrow> discordant_tag \<Rightarrow> 'k bins \<Rightarrow>
   bool \<times> pair list \<times> pair list \<Rightarrow> bool \<times> pair list \<times> pair list"
where
  "pair_buckets same ctag dtag d st = fold (bucket_step same ctag dtag) d st"

text \<open>
  Lines 120-205 after the binner has run. The result is the pair list, the residual
  (\<^verbatim>\<open>[]\<close>, or \<^verbatim>\<open>pe_reads\<close> itself) and, third, the fragment's records as the call leaves
  them: \<^verbatim>\<open>find_discordant_pairs\<close> writes tags into the records of \<^verbatim>\<open>pe_reads\<close>.
\<close>

definition classify_binned ::
  "('l, 'g) externals \<Rightarrow> int bins \<Rightarrow> int bins \<Rightarrow> fragment \<Rightarrow> 'l \<Rightarrow>
   pair list \<times> read list list \<times> fragment"
where
  "classify_binned X refdict clusterdict pe_reads library_type =
     (let same = same_strand X library_type in
      case pair_buckets same CONCORDANT_TX DISCORDANT_STRAND_TX (iteritems X refdict)
             (False, [], []) of
        (found_pair, concordant_tx_pairs, discordant_tx_pairs) \<Rightarrow>
      case (if \<not> found_pair
            then pair_buckets same CONCORDANT_GENE DISCORDANT_STRAND_GENE
                   (iteritems X clusterdict) (found_pair, [], [])
            else (found_pair, [], [])) of
        (found_pair', concordant_cluster_pairs, discordant_cluster_pairs) \<Rightarrow>
      let gene_pairs =
            (if length concordant_tx_pairs > 0 then concordant_tx_pairs
             else if length concordant_cluster_pairs > 0 then concordant_cluster_pairs
             else [])
      in if length gene_pairs > 0 then (gene_pairs, [], pe_reads)
      else
      let gene_pairs =
            (if length discordant_tx_pairs > 0 then discordant_tx_pairs
             else if length discordant_cluster_pairs > 0 then discordant_cluster_pairs
             else [])
      in if length gene_pairs > 0 then (gene_pairs, [], pe_reads)
      else
      case find_discordant_pairs X pe_reads library_type of
        (gene_pairs, pe_reads') \<Rightarrow>
          if length gene_pairs > 0
          then (select_best_scoring_pairs gene_pairs, [], pe_reads')
          else ([], [fst pe_reads', snd pe_reads'], pe_reads'))"

text \<open>The parameter \<^verbatim>\<open>max_isize\<close> is unused in the source; it is kept.\<close>

definition classify_read_pairs ::
  "('l, 'g) externals \<Rightarrow> fragment \<Rightarrow> int \<Rightarrow> 'l \<Rightarrow> (int \<rightharpoonup> transcript) \<Rightarrow>
   py_error + pair list \<times> read list list \<times> fragment"
where
  "classify_read_pairs X pe_reads max_isize library_type tid_tx_map =
     (case map_reads_to_references pe_reads tid_tx_map of
        Inl e \<Rightarrow> Inl e
      | Inr (refdict, clusterdict) \<Rightarrow>
          Inr (classify_binned X refdict clusterdict pe_reads library_type))"

section \<open>Fragment Dispatcher (lines 207-290)\<close>

text \<open>\<^verbatim>\<open>bamfh.write(r)\<close>: only a file has the method.\<close>

definition write_read :: "pyobj \<Rightarrow> read \<Rightarrow> channels \<Rightarrow> py_error + channels" where
  "write_read bamfh r ch =
     (case bamfh of
        Samfile h \<Rightarrow> Inr (ch(h := ch h @ [r]))
      | PeReads _ \<Rightarrow> Inl AttributeError)"

fun write_reads :: "read list \<Rightarrow> pyobj \<Rightarrow> channels \<Rightarrow> py_error + channels" where
  "write_reads [] bamfh ch = Inr ch"
| "write_reads (r # rs) bamfh ch =
     (case write_read bamfh r ch of Inl e \<Rightarrow> Inl e | Inr ch' \<Rightarrow> write_reads rs bamfh ch')"

text \<open>
  \<^verbatim>\<open>write_pe_reads(pe_reads, bamfh)\<close> iterates over its first argument and, for every
  item, over the item. When the first argument is an output file, the items are what the
  file yields (\<open>samfile_iter\<close>); an item is then a single record, which is not iterable.
\<close>

fun write_mates :: "read list list \<Rightarrow> pyobj \<Rightarrow> channels \<Rightarrow> py_error + channels" where
  "write_mates [] bamfh ch = Inr ch"
| "write_mates (reads # rest) bamfh ch =
     (case write_reads reads bamfh ch of Inl e \<Rightarrow> Inl e | Inr ch' \<Rightarrow> write_mates rest bamfh ch')"

definition write_pe_reads ::
  "('l, 'g) externals \<Rightarrow> pyobj \<Rightarrow> pyobj \<Rightarrow> channels \<Rightarrow> py_error + channels"
where
  "write_pe_reads X pe_reads bamfh ch =
     (case pe_reads of
        PeReads mates \<Rightarrow> write_mates mates bamfh ch
      | Samfile h \<Rightarrow>
          (case samfile_iter X h of
             Inl e \<Rightarrow> Inl e
           | Inr [] \<Rightarrow> Inr ch
           | Inr (item # items) \<Rightarrow> Inl TypeError))"

fun write_pairs :: "pair list \<Rightarrow> handle \<Rightarrow> handle \<Rightarrow> channels \<Rightarrow> py_error + channels" where
  "write_pairs [] pairedfh discordantfh ch = Inr ch"
| "write_pairs ((r1, r2) # pairs) pairedfh discordantfh ch =
     (case opt r1 DISCORDANT_TAG_NAME of
        Inl e \<Rightarrow> Inl e
      | Inr dr1 \<Rightarrow>
          (case opt r2 DISCORDANT_TAG_NAME of
             Inl e \<Rightarrow> Inl e
           | Inr dr2 \<Rightarrow>
               (if dr1 \<noteq> TagD DISCORDANT_GENE \<or> dr2 \<noteq> TagD DISCORDANT_GENE
                then write_pairs pairs pairedfh discordantfh
                       (ch(pairedfh := ch pairedfh @ [r1, r2]))
                else write_pairs pairs pairedfh discordantfh
                       (ch(discordantfh := ch discordantfh @ [r1, r2])))))"

text \<open>
  The body of the loop over the fragments (lines 262-284). The arguments of the two first
  calls of \<^verbatim>\<open>write_pe_reads\<close> stand as the source has them: the file first, the fragment
  second.
\<close>

definition dispatch_fragment ::
  "('l, 'g) externals \<Rightarrow> int \<Rightarrow> int \<Rightarrow> 'l \<Rightarrow> (int \<rightharpoonup> transcript) \<Rightarrow> (int \<rightharpoonup> 'g) \<Rightarrow>
   fragment \<Rightarrow> channels \<Rightarrow> py_error + channels"
where
  "dispatch_fragment X max_isize max_multihits library_type tid_tx_map tid_tx_genome_map pe_reads ch =
     (case count_transcriptome_multimaps X (fst pe_reads) tid_tx_genome_map of
        Inl e \<Rightarrow> Inl e
      | Inr num_hits1 \<Rightarrow>
     (case count_transcriptome_multimaps X (snd pe_reads) tid_tx_genome_map of
        Inl e \<Rightarrow> Inl e
      | Inr num_hits2 \<Rightarrow>
          if min num_hits1 num_hits2 = 0
          then write_pe_reads X (Samfile Unpairedfh) (PeReads [fst pe_reads, snd pe_reads]) ch
          else if int (max num_hits1 num_hits2) > max_multihits
          then write_pe_reads X (Samfile Multimapfh) (PeReads [fst pe_reads, snd pe_reads]) ch
          else
            (case classify_read_pairs X pe_reads max_isize library_type tid_tx_map of
               Inl e \<Rightarrow> Inl e
             | Inr (gene_pairs, unpaired_reads, pe_reads') \<Rightarrow>
                 if length gene_pairs > 0
                 then write_pairs gene_pairs Pairedfh Discordantfh ch
                 else write_pe_reads X (PeReads unpaired_reads) (Samfile Unpairedfh) ch)))"

text \<open>The loop over the fragments of the input file; an exception ends the run.\<close>

fun find_discordant_fragments ::
  "('l, 'g) externals \<Rightarrow> int \<Rightarrow> int \<Rightarrow> 'l \<Rightarrow> (int \<rightharpoonup> transcript) \<Rightarrow> (int \<rightharpoonup> 'g) \<Rightarrow>
   fragment list \<Rightarrow> channels \<Rightarrow> py_error + channels"
where
  "find_discordant_fragments X max_isize max_multihits library_type tid_tx_map tid_tx_genome_map [] ch =
     Inr ch"
| "find_discordant_fragments X max_isize max_multihits library_type tid_tx_map tid_tx_genome_map
     (pe_reads # rest) ch =
     (case dispatch_fragment X max_isize max_multihits library_type tid_tx_map tid_tx_genome_map
             pe_reads ch of
        Inl e \<Rightarrow> Inl e
      | Inr ch' \<Rightarrow>
          find_discordant_fragments X max_isize max_multihits library_type tid_tx_map
            tid_tx_genome_map rest ch')"

section \<open>Closed forms of the loops\<close>

text \<open>
  The results below are stated with these closed forms, each proved equal to the loop it
  describes. \<open>candidates d\<close> is the list of all (mate 1, mate 2) combinations the nested
  loops of lines 128-129 (or 155-156) visit over the buckets of \<open>d\<close>, in the order of the
  visit.
\<close>

definition candidates :: "'k bins \<Rightarrow> pair list" where
  "candidates d = concat (map (\<lambda>(k, m1, m2). List.product m1 m2) d)"

text \<open>The test of lines 131 and 158 on a combination.\<close>

definition strand_ok :: "bool \<Rightarrow> pair \<Rightarrow> bool" where
  "strand_ok same p = (same = (is_reverse (fst p) = is_reverse (snd p)))"

text \<open>Copying and pairing every combination of a list with one tag (lines 134-146).\<close>

definition tag_pairs :: "discordant_tag \<Rightarrow> pair list \<Rightarrow> pair list" where
  "tag_pairs t ps =
     map (\<lambda>p. pair_reads (copy_read (fst p)) (copy_read (snd p)) [(DISCORDANT_TAG_NAME, TagD t)]) ps"

text \<open>A record after the assignment of lines 69-70.\<close>

definition annotate :: "('l, 'g) externals \<Rightarrow> 'l \<Rightarrow> read \<Rightarrow> read" where
  "annotate X library_type r =
     r\<lparr>tags := tags r @ [(DISCORDANT_TAG_NAME, TagD DISCORDANT_GENE),
                          (ORIENTATION_TAG, TagO (get_orientation X r library_type))]\<rparr>"

text \<open>The records of a list with a given orientation, in their order.\<close>

definition oriented :: "('l, 'g) externals \<Rightarrow> 'l \<Rightarrow> orientation \<Rightarrow> read list \<Rightarrow> read list" where
  "oriented X library_type orient reads =
     filter (\<lambda>r. get_orientation X r library_type = orient) reads"

text \<open>
  What the binner has built from the mapped records \<open>M1\<close> of mate 1 and \<open>M2\<close> of mate 2,
  filed under the key \<open>kf\<close>: distinct keys, every bucket holding the records of its key in
  their order, and a bucket for every key that occurs.
\<close>

definition binned :: "(read \<Rightarrow> 'k) \<Rightarrow> read list \<Rightarrow> read list \<Rightarrow> 'k bins \<Rightarrow> bool" where
  "binned kf M1 M2 d \<longleftrightarrow>
     distinct (map fst d) \<and>
     (\<forall>(k, m1, m2) \<in> set d. m1 = filter (\<lambda>r. kf r = k) M1 \<and> m2 = filter (\<lambda>r. kf r = k) M2) \<and>
     kf ` (set M1 \<union> set M2) \<subseteq> fst ` set d"

section \<open>Example data\<close>

text \<open>
  A library type is a truth value here: \<open>True\<close> for a library that expects both mates on one
  strand. An entry of the genome table is a genome reference and the offset of the
  transcript on it. A forward alignment is a 5' hit, a reverse alignment a 3' hit,
  iterating over an output file yields nothing, and a dictionary is visited in the order of
  first insertion.
\<close>

definition ex_ext :: "(bool, int \<times> int) externals" where
  "ex_ext =
     \<lparr>transcript_to_genome_pos =
        (\<lambda>t p m. case m t of None \<Rightarrow> (t, 0, p) | Some (g, off) \<Rightarrow> (g, 0, off + p)),
      same_strand = (\<lambda>l. l),
      get_orientation = (\<lambda>r l. if is_reverse r then ORIENTATION_3P else ORIENTATION_5P),
      samfile_iter = (\<lambda>h. Inr []),
      iteritems = (\<lambda>d. d)\<rparr>"

definition ex_genome_map :: "int \<rightharpoonup> int \<times> int" where
  "ex_genome_map = [1 \<mapsto> (7, 1000), 2 \<mapsto> (7, 1050), 3 \<mapsto> (8, 0)]"

definition ex_tx_map :: "int \<rightharpoonup> transcript" where
  "ex_tx_map =
     [1 \<mapsto> \<lparr>tx_tid = 1, cluster_id = 10, tx_strand = False, genome_tid = 7\<rparr>,
      2 \<mapsto> \<lparr>tx_tid = 2, cluster_id = 10, tx_strand = False, genome_tid = 7\<rparr>,
      3 \<mapsto> \<lparr>tx_tid = 3, cluster_id = 30, tx_strand = True, genome_tid = 8\<rparr>]"

text \<open>Forward on transcript 1; genomic interval 1100 to 1149 on reference 7.\<close>

definition ex_a :: read where
  "ex_a = \<lparr>tid = 1, pos = 100, aend = 150, is_reverse = False, is_unmapped = False,
           score = 40, tags = []\<rparr>"

text \<open>Forward on transcript 2 (the cluster of transcript 1); the same genomic interval.\<close>

definition ex_b :: read where
  "ex_b = \<lparr>tid = 2, pos = 50, aend = 100, is_reverse = False, is_unmapped = False,
           score = 38, tags = []\<rparr>"

text \<open>Forward on transcript 3, in another cluster.\<close>

definition ex_c :: read where
  "ex_c = \<lparr>tid = 3, pos = 10, aend = 60, is_reverse = False, is_unmapped = False,
           score = 35, tags = []\<rparr>"

text \<open>Reverse on transcript 1.\<close>

definition ex_d :: read where
  "ex_d = \<lparr>tid = 1, pos = 300, aend = 350, is_reverse = True, is_unmapped = False,
           score = 40, tags = []\<rparr>"

text \<open>Reverse on transcript 3.\<close>

definition ex_e :: read where
  "ex_e = \<lparr>tid = 3, pos = 200, aend = 250, is_reverse = True, is_unmapped = False,
           score = 30, tags = []\<rparr>"

text \<open>Reverse on transcript 2.\<close>

definition ex_f :: read where
  "ex_f = \<lparr>tid = 2, pos = 400, aend = 450, is_reverse = True, is_unmapped = False,
           score = 40, tags = []\<rparr>"

text \<open>An unmapped record.\<close>

definition ex_u :: read where
  "ex_u = \<lparr>tid = - 1, pos = - 1, aend = 0, is_reverse = False, is_unmapped = True,
           score = 0, tags = []\<rparr>"

text \<open>A mapped record whose reference id is in neither table.\<close>

definition ex_x :: read where
  "ex_x = \<lparr>tid = 9, pos = 5, aend = 55, is_reverse = False, is_unmapped = False,
           score = 40, tags = []\<rparr>"

definition ex_ch :: channels where
  "ex_ch = (\<lambda>h. [])"

section \<open>Facts about the loops\<close>

lemmas ex_defs =
  ex_ext_def ex_genome_map_def ex_tx_map_def ex_a_def ex_b_def ex_c_def ex_d_def ex_e_def ex_f_def
  ex_u_def ex_x_def ex_ch_def

subsection \<open>The cross products of the classifier\<close>

lemma inner_fold:
  "fold (\<lambda>r2. pair_step same ct dt r1 r2) m2 (fp, c, d) =
    (fp \<or> m2 \<noteq> [],
     c @ tag_pairs ct (filter (strand_ok same) (map (Pair r1) m2)),
     d @ tag_pairs dt (filter (\<lambda>p. \<not> strand_ok same p) (map (Pair r1) m2)))"
  by (induction m2 arbitrary: fp c d) (auto simp: pair_step_def tag_pairs_def strand_ok_def Let_def)

lemma outer_fold:
  "fold (\<lambda>r1. fold (\<lambda>r2. pair_step same ct dt r1 r2) m2) m1 (fp, c, d) =
    (fp \<or> (m1 \<noteq> [] \<and> m2 \<noteq> []),
     c @ tag_pairs ct (filter (strand_ok same) (List.product m1 m2)),
     d @ tag_pairs dt (filter (\<lambda>p. \<not> strand_ok same p) (List.product m1 m2)))"
proof (induction m1 arbitrary: fp c d)
  case Nil
  then show ?case by (simp add: tag_pairs_def)
next
  case (Cons r1 m1)
  show ?case
    by (simp add: inner_fold Cons.IH tag_pairs_def)
qed

lemma product_Nil_iff: "List.product xs ys = [] \<longleftrightarrow> xs = [] \<or> ys = []"
  by (induction xs) auto

lemma bucket_step_closed:
  "bucket_step same ct dt (k, m1, m2) (fp, c, d) =
    (fp \<or> List.product m1 m2 \<noteq> [],
     c @ tag_pairs ct (filter (strand_ok same) (List.product m1 m2)),
     d @ tag_pairs dt (filter (\<lambda>p. \<not> strand_ok same p) (List.product m1 m2)))"
proof (cases "m1 = [] \<or> m2 = []")
  case True
  then have "List.product m1 m2 = []" by (simp add: product_Nil_iff)
  with True show ?thesis by (auto simp: bucket_step_def tag_pairs_def)
next
  case False
  then show ?thesis
    by (simp add: bucket_step_def outer_fold product_Nil_iff)
qed

lemma pair_buckets_closed:
  "pair_buckets same ct dt d (fp, c, dd) =
    (fp \<or> candidates d \<noteq> [],
     c @ tag_pairs ct (filter (strand_ok same) (candidates d)),
     dd @ tag_pairs dt (filter (\<lambda>p. \<not> strand_ok same p) (candidates d)))"
proof (induction d arbitrary: fp c dd)
  case Nil
  then show ?case by (simp add: pair_buckets_def candidates_def tag_pairs_def)
next
  case (Cons b d)
  obtain k m1 m2 where b: "b = (k, m1, m2)" by (cases b) auto
  have "pair_buckets same ct dt (b # d) (fp, c, dd) =
        pair_buckets same ct dt d (bucket_step same ct dt (k, m1, m2) (fp, c, dd))"
    by (simp add: pair_buckets_def b)
  then show ?case
    by (simp add: bucket_step_closed Cons.IH b candidates_def tag_pairs_def)
qed

lemma classify_unpaired_loop_closed:
  "classify_unpaired_loop X lt rs (seen, h5, h3) =
     (seen @ map (annotate X lt) rs,
      h5 @ map (annotate X lt) (oriented X lt ORIENTATION_5P rs),
      h3 @ map (annotate X lt) (oriented X lt ORIENTATION_3P rs))"
proof (induction rs arbitrary: seen h5 h3)
  case Nil
  then show ?case by (simp add: oriented_def)
next
  case (Cons r rs)
  show ?case
  proof (cases "get_orientation X r lt")
    case ORIENTATION_5P
    then show ?thesis by (simp add: Cons.IH Let_def annotate_def oriented_def)
  next
    case ORIENTATION_3P
    then show ?thesis by (simp add: Cons.IH Let_def annotate_def oriented_def)
  qed
qed

lemma classify_unpaired_reads_closed:
  "classify_unpaired_reads X rs lt =
     (map (annotate X lt) rs,
      map (annotate X lt) (oriented X lt ORIENTATION_5P rs),
      map (annotate X lt) (oriented X lt ORIENTATION_3P rs))"
  by (simp add: classify_unpaired_reads_def classify_unpaired_loop_closed)

lemma combo_pairs_product: "combo_pairs xs ys = List.product xs ys"
  by (induction xs) (simp_all add: combo_pairs_def pair_reads_def copy_read_def)

lemma find_discordant_pairs_closed:
  "find_discordant_pairs X pe lt =
     (List.product (map (annotate X lt) (oriented X lt ORIENTATION_5P (fst pe)))
                   (map (annotate X lt) (oriented X lt ORIENTATION_3P (snd pe))) @
      List.product (map (annotate X lt) (oriented X lt ORIENTATION_3P (fst pe)))
                   (map (annotate X lt) (oriented X lt ORIENTATION_5P (snd pe))),
      (map (annotate X lt) (fst pe), map (annotate X lt) (snd pe)))"
  by (simp add: find_discordant_pairs_def classify_unpaired_reads_closed combo_pairs_product)

lemma fold_max_mem:
  "fold (\<lambda>q m. max (f q) m) ps (a::int) \<in> insert a (f ` set ps)"
  by (induction ps arbitrary: a) (auto simp: max_def)

lemma select_best_subset: "set (select_best_scoring_pairs ps) \<subseteq> set ps"
  by (auto simp: select_best_scoring_pairs_def Let_def split: list.splits)

lemma select_best_set:
  "set (select_best_scoring_pairs (p # qs)) =
     {q \<in> set (p # qs). pair_score q = fold (\<lambda>q m. max (pair_score q) m) qs (pair_score p)}"
  by (simp add: select_best_scoring_pairs_def Let_def del: filter.simps)

lemma select_best_nonempty: "ps \<noteq> [] \<Longrightarrow> select_best_scoring_pairs ps \<noteq> []"
proof (cases ps)
  case Nil
  then show "ps \<noteq> [] \<Longrightarrow> ?thesis" by simp
next
  case (Cons p qs)
  have "fold (\<lambda>q m. max (pair_score q) m) qs (pair_score p) \<in> pair_score ` set (p # qs)"
    using fold_max_mem[of pair_score qs "pair_score p"] by simp
  then obtain q where "q \<in> set (p # qs)"
    "pair_score q = fold (\<lambda>q m. max (pair_score q) m) qs (pair_score p)"
    unfolding image_iff by metis
  then have "q \<in> set (select_best_scoring_pairs (p # qs))"
    unfolding select_best_set by simp
  then show ?thesis using Cons by auto
qed

subsection \<open>The multimap counter and the binner\<close>

lemma count_loop_mapped:
  "\<forall>r\<in>set rs. \<not> is_unmapped r \<and> gm (tid r) \<noteq> None \<Longrightarrow>
   count_loop X gm hits rs = Inr (card (hits \<union> locus_key X gm ` set rs))"
  by (induction rs arbitrary: hits) auto

lemma count_loop_unmapped:
  "\<forall>r\<in>set pre. \<not> is_unmapped r \<and> gm (tid r) \<noteq> None \<Longrightarrow> is_unmapped u \<Longrightarrow>
   count_loop X gm hits (pre @ u # post) = Inr 0"
  by (induction pre arbitrary: hits) auto

lemma count_loop_absent:
  "\<forall>r\<in>set pre. \<not> is_unmapped r \<and> gm (tid r) \<noteq> None \<Longrightarrow> \<not> is_unmapped b \<Longrightarrow> gm (tid b) = None \<Longrightarrow>
   count_loop X gm hits (pre @ b # post) = Inl AssertionError"
  by (induction pre arbitrary: hits) auto

lemma count_loop_total:
  "\<forall>r\<in>set rs. \<not> is_unmapped r \<longrightarrow> gm (tid r) \<noteq> None \<Longrightarrow>
   \<exists>n. count_loop X gm hits rs = Inr n"
  by (induction rs arbitrary: hits) auto

lemma bin_reads_absent:
  "\<exists>r\<in>set rs. \<not> is_unmapped r \<and> tm (tid r) = None \<Longrightarrow>
   bin_reads tm n rs d = Inl AssertionError"
  by (induction tm n rs d rule: bin_reads.induct) (auto split: option.splits)

lemma bin_reads_total:
  "\<forall>r\<in>set rs. \<not> is_unmapped r \<longrightarrow> tm (tid r) \<noteq> None \<Longrightarrow>
   \<exists>d'. bin_reads tm n rs d = Inr d'"
  by (induction tm n rs d rule: bin_reads.induct) (auto split: option.splits)

lemma bin_reads_error:
  "bin_reads tm n rs d = Inl e \<Longrightarrow> e = AssertionError"
  by (induction tm n rs d rule: bin_reads.induct) (auto split: option.splits if_splits)

subsection \<open>Writing with the arguments exchanged\<close>

lemma write_pe_reads_swapped:
  "write_pe_reads X (Samfile h) obj ch = Inr ch' \<Longrightarrow> ch' = ch"
  by (auto simp: write_pe_reads_def split: sum.splits list.splits)

subsection \<open>The classifier after the binner\<close>

lemma tag_pairs_Nil_iff: "tag_pairs t ps = [] \<longleftrightarrow> ps = []"
  by (simp add: tag_pairs_def)

lemma filter_both_Nil:
  "filter P xs = [] \<Longrightarrow> filter (\<lambda>x. \<not> P x) xs = [] \<Longrightarrow> xs = []"
  by (induction xs) (auto split: if_splits)

text \<open>The classifier after the binner, with the loops in closed form.\<close>

lemma classify_binned_closed:
  "classify_binned X rd cd pe lt =
     (if filter (strand_ok (same_strand X lt)) (candidates (iteritems X rd)) \<noteq> []
      then (tag_pairs CONCORDANT_TX (filter (strand_ok (same_strand X lt)) (candidates (iteritems X rd))), [], pe)
      else if candidates (iteritems X rd) \<noteq> []
      then (tag_pairs DISCORDANT_STRAND_TX (filter (\<lambda>p. \<not> strand_ok (same_strand X lt) p) (candidates (iteritems X rd))), [], pe)
      else if filter (strand_ok (same_strand X lt)) (candidates (iteritems X cd)) \<noteq> []
      then (tag_pairs CONCORDANT_GENE (filter (strand_ok (same_strand X lt)) (candidates (iteritems X cd))), [], pe)
      else if candidates (iteritems X cd) \<noteq> []
      then (tag_pairs DISCORDANT_STRAND_GENE (filter (\<lambda>p. \<not> strand_ok (same_strand X lt) p) (candidates (iteritems X cd))), [], pe)
      else if fst (find_discordant_pairs X pe lt) \<noteq> []
      then (select_best_scoring_pairs (fst (find_discordant_pairs X pe lt)), [],
            snd (find_discordant_pairs X pe lt))
      else ([], [fst (snd (find_discordant_pairs X pe lt)), snd (snd (find_discordant_pairs X pe lt))],
            snd (find_discordant_pairs X pe lt)))"
proof -
  have n1: "filter (\<lambda>p. \<not> strand_ok (same_strand X lt) p) (candidates (iteritems X rd)) \<noteq> []"
    if "filter (strand_ok (same_strand X lt)) (candidates (iteritems X rd)) = []" "candidates (iteritems X rd) \<noteq> []"
    using that filter_both_Nil by blast
  have n2: "filter (\<lambda>p. \<not> strand_ok (same_strand X lt) p) (candidates (iteritems X cd)) \<noteq> []"
    if "filter (strand_ok (same_strand X lt)) (candidates (iteritems X cd)) = []" "candidates (iteritems X cd) \<noteq> []"
    using that filter_both_Nil by blast
  show ?thesis
    using n1 n2
    by (cases "candidates (iteritems X rd) = []"; cases "candidates (iteritems X cd) = []")
       (auto simp: classify_binned_def pair_buckets_closed tag_pairs_Nil_iff Let_def split: prod.splits)
qed

lemma last_tag_pairs:
  "p \<in> set (tag_pairs t ps) \<Longrightarrow> last (tags (fst p)) = (DISCORDANT_TAG_NAME, TagD t)"
  by (auto simp: tag_pairs_def pair_reads_def)

lemma last_annotate:
  "last (tags (annotate X lt r)) = (ORIENTATION_TAG, TagO (get_orientation X r lt))"
  by (simp add: annotate_def)

lemma find_discordant_pairs_mem:
  assumes "(a, b) \<in> set (fst (find_discordant_pairs X pe lt))"
  shows "\<exists>r1\<in>set (fst pe). \<exists>r2\<in>set (snd pe).
           a = annotate X lt r1 \<and> b = annotate X lt r2 \<and>
           get_orientation X r1 lt \<noteq> get_orientation X r2 lt"
proof -
  from assms consider
      (a) r1 r2 where "r1 \<in> set (fst pe)" "r2 \<in> set (snd pe)"
        "a = annotate X lt r1" "b = annotate X lt r2"
        "get_orientation X r1 lt = ORIENTATION_5P" "get_orientation X r2 lt = ORIENTATION_3P"
    | (b) r1 r2 where "r1 \<in> set (fst pe)" "r2 \<in> set (snd pe)"
        "a = annotate X lt r1" "b = annotate X lt r2"
        "get_orientation X r1 lt = ORIENTATION_3P" "get_orientation X r2 lt = ORIENTATION_5P"
    by (auto simp: find_discordant_pairs_closed oriented_def)
  then show ?thesis
  proof cases
    case a
    then have "get_orientation X r1 lt \<noteq> get_orientation X r2 lt" by simp
    with a show ?thesis by blast
  next
    case b
    then have "get_orientation X r1 lt \<noteq> get_orientation X r2 lt" by simp
    with b show ?thesis by blast
  qed
qed

subsection \<open>What the binner files where\<close>

lemma append_read_keys: "fst ` set (append_read k n r d) = insert k (fst ` set d)"
  by (induction k n r d rule: append_read.induct) auto

lemma append_read_distinct:
  "distinct (map fst d) \<Longrightarrow> distinct (map fst (append_read k n r d))"
proof (induction k n r d rule: append_read.induct)
  case (1 k readnum r)
  then show ?case by simp
next
  case (2 k readnum r k' m1 m2 d)
  have "fst ` set (append_read k readnum r d) = insert k (fst ` set d)"
    by (rule append_read_keys)
  with 2 show ?case by auto
qed

lemma append_read_mem:
  "distinct (map fst d) \<Longrightarrow>
   (k', m1', m2') \<in> set (append_read k n r d) \<longleftrightarrow>
     (k' \<noteq> k \<and> (k', m1', m2') \<in> set d) \<or>
     (k' = k \<and> k \<notin> fst ` set d \<and> (m1', m2') = (if n = 0 then ([r], []) else ([], [r]))) \<or>
     (k' = k \<and> (\<exists>m1 m2. (k, m1, m2) \<in> set d \<and>
          (m1', m2') = (if n = 0 then (m1 @ [r], m2) else (m1, m2 @ [r]))))"
proof (induction k n r d rule: append_read.induct)
  case (1 k readnum r)
  then show ?case by auto
next
  case (2 k readnum r k'' m1 m2 d)
  show ?case
  proof (cases "k'' = k")
    case True
    with 2 show ?thesis by (auto simp: image_iff)
  next
    case False
    with 2 show ?thesis by (auto simp: image_iff)
  qed
qed

lemma binned_append1:
  assumes "binned kf M1 M2 d"
  shows "binned kf (M1 @ [r]) M2 (append_read (kf r) 0 r d)"
proof -
  from assms have dist: "distinct (map fst d)"
    and bk: "\<And>k m1 m2. (k, m1, m2) \<in> set d \<Longrightarrow>
               m1 = filter (\<lambda>r. kf r = k) M1 \<and> m2 = filter (\<lambda>r. kf r = k) M2"
    and cov: "kf ` (set M1 \<union> set M2) \<subseteq> fst ` set d"
    by (auto simp: binned_def)
  have new: "filter (\<lambda>x. kf x = kf r) M1 = [] \<and> filter (\<lambda>x. kf x = kf r) M2 = []"
    if "kf r \<notin> fst ` set d"
  proof -
    have "kf x \<noteq> kf r" if "x \<in> set M1 \<union> set M2" for x
    proof
      assume "kf x = kf r"
      moreover from cov \<open>x \<in> set M1 \<union> set M2\<close> have "kf x \<in> fst ` set d" by blast
      ultimately show False using \<open>kf r \<notin> fst ` set d\<close> by simp
    qed
    then show ?thesis by (auto simp: filter_empty_conv)
  qed
  have "m1' = filter (\<lambda>x. kf x = k') (M1 @ [r]) \<and> m2' = filter (\<lambda>x. kf x = k') M2"
    if "(k', m1', m2') \<in> set (append_read (kf r) 0 r d)" for k' m1' m2'
    using that bk new unfolding append_read_mem[OF dist] by auto
  moreover have "kf ` (set (M1 @ [r]) \<union> set M2) \<subseteq> fst ` set (append_read (kf r) 0 r d)"
    using cov by (auto simp: append_read_keys)
  ultimately show ?thesis
    using append_read_distinct[OF dist] by (auto simp: binned_def)
qed

lemma binned_append2:
  assumes "binned kf M1 M2 d"
  shows "binned kf M1 (M2 @ [r]) (append_read (kf r) (Suc 0) r d)"
proof -
  from assms have dist: "distinct (map fst d)"
    and bk: "\<And>k m1 m2. (k, m1, m2) \<in> set d \<Longrightarrow>
               m1 = filter (\<lambda>r. kf r = k) M1 \<and> m2 = filter (\<lambda>r. kf r = k) M2"
    and cov: "kf ` (set M1 \<union> set M2) \<subseteq> fst ` set d"
    by (auto simp: binned_def)
  have new: "filter (\<lambda>x. kf x = kf r) M1 = [] \<and> filter (\<lambda>x. kf x = kf r) M2 = []"
    if "kf r \<notin> fst ` set d"
  proof -
    have "kf x \<noteq> kf r" if "x \<in> set M1 \<union> set M2" for x
    proof
      assume "kf x = kf r"
      moreover from cov \<open>x \<in> set M1 \<union> set M2\<close> have "kf x \<in> fst ` set d" by blast
      ultimately show False using \<open>kf r \<notin> fst ` set d\<close> by simp
    qed
    then show ?thesis by (auto simp: filter_empty_conv)
  qed
  have "m1' = filter (\<lambda>x. kf x = k') M1 \<and> m2' = filter (\<lambda>x. kf x = k') (M2 @ [r])"
    if "(k', m1', m2') \<in> set (append_read (kf r) (Suc 0) r d)" for k' m1' m2'
    using that bk new unfolding append_read_mem[OF dist] by auto
  moreover have "kf ` (set M1 \<union> set (M2 @ [r])) \<subseteq> fst ` set (append_read (kf r) (Suc 0) r d)"
    using cov by (auto simp: append_read_keys)
  ultimately show ?thesis
    using append_read_distinct[OF dist] by (auto simp: binned_def)
qed

lemma binned_candidates:
  assumes "binned kf M1 M2 d"
  shows "set (candidates d) = {(r1, r2). r1 \<in> set M1 \<and> r2 \<in> set M2 \<and> kf r1 = kf r2}"
proof -
  from assms have bk: "\<And>k m1 m2. (k, m1, m2) \<in> set d \<Longrightarrow>
               m1 = filter (\<lambda>r. kf r = k) M1 \<and> m2 = filter (\<lambda>r. kf r = k) M2"
    and cov: "kf ` (set M1 \<union> set M2) \<subseteq> fst ` set d"
    by (auto simp: binned_def)
  have mem: "(r1, r2) \<in> set (candidates d) \<longleftrightarrow>
        (\<exists>k m1 m2. (k, m1, m2) \<in> set d \<and> r1 \<in> set m1 \<and> r2 \<in> set m2)" for r1 r2
    by (auto simp: candidates_def)
  show ?thesis
  proof (rule set_eqI, clarify)
    fix r1 r2
    show "(r1, r2) \<in> set (candidates d) \<longleftrightarrow>
          (r1, r2) \<in> {(r1, r2). r1 \<in> set M1 \<and> r2 \<in> set M2 \<and> kf r1 = kf r2}"
    proof
      assume "(r1, r2) \<in> set (candidates d)"
      then obtain k m1 m2 where "(k, m1, m2) \<in> set d" "r1 \<in> set m1" "r2 \<in> set m2"
        unfolding mem by blast
      with bk[of k m1 m2] show "(r1, r2) \<in> {(r1, r2). r1 \<in> set M1 \<and> r2 \<in> set M2 \<and> kf r1 = kf r2}"
        by auto
    next
      assume "(r1, r2) \<in> {(r1, r2). r1 \<in> set M1 \<and> r2 \<in> set M2 \<and> kf r1 = kf r2}"
      then have a: "r1 \<in> set M1" "r2 \<in> set M2" "kf r1 = kf r2" by auto
      with cov have "kf r1 \<in> fst ` set d" by auto
      then obtain m1 m2 where b: "(kf r1, m1, m2) \<in> set d" by force
      from bk[OF b] a have "r1 \<in> set m1" "r2 \<in> set m2" by auto
      with b show "(r1, r2) \<in> set (candidates d)" unfolding mem by blast
    qed
  qed
qed

lemma bin_reads_binned1:
  "bin_reads tm 0 rs (rd, cd) = Inr (rd', cd') \<Longrightarrow>
   binned tid M1 M2 rd \<Longrightarrow> binned (\<lambda>r. cluster_id (the (tm (tid r)))) M1 M2 cd \<Longrightarrow>
   binned tid (M1 @ filter (\<lambda>r. \<not> is_unmapped r) rs) M2 rd' \<and>
   binned (\<lambda>r. cluster_id (the (tm (tid r)))) (M1 @ filter (\<lambda>r. \<not> is_unmapped r) rs) M2 cd'"
proof (induction rs arbitrary: rd cd M1)
  case Nil
  then show ?case by simp
next
  case (Cons r rs)
  show ?case
  proof (cases "is_unmapped r")
    case True
    with Cons show ?thesis by simp
  next
    case False
    with Cons.prems(1) obtain tx where tx: "tm (tid r) = Some tx"
      by (auto split: option.splits)
    with False Cons.prems(1)
    have step: "bin_reads tm 0 rs (append_read (tid r) 0 r rd, append_read (cluster_id tx) 0 r cd) = Inr (rd', cd')"
      by simp
    have b1: "binned tid (M1 @ [r]) M2 (append_read (tid r) 0 r rd)"
      using binned_append1[OF Cons.prems(2)] .
    have b2: "binned (\<lambda>r. cluster_id (the (tm (tid r)))) (M1 @ [r]) M2 (append_read (cluster_id tx) 0 r cd)"
      using binned_append1[OF Cons.prems(3), of r] tx by simp
    from Cons.IH[OF step b1 b2] False show ?thesis by simp
  qed
qed

lemma bin_reads_binned2:
  "bin_reads tm (Suc 0) rs (rd, cd) = Inr (rd', cd') \<Longrightarrow>
   binned tid M1 M2 rd \<Longrightarrow> binned (\<lambda>r. cluster_id (the (tm (tid r)))) M1 M2 cd \<Longrightarrow>
   binned tid M1 (M2 @ filter (\<lambda>r. \<not> is_unmapped r) rs) rd' \<and>
   binned (\<lambda>r. cluster_id (the (tm (tid r)))) M1 (M2 @ filter (\<lambda>r. \<not> is_unmapped r) rs) cd'"
proof (induction rs arbitrary: rd cd M2)
  case Nil
  then show ?case by simp
next
  case (Cons r rs)
  show ?case
  proof (cases "is_unmapped r")
    case True
    with Cons show ?thesis by simp
  next
    case False
    with Cons.prems(1) obtain tx where tx: "tm (tid r) = Some tx"
      by (auto split: option.splits)
    with False Cons.prems(1)
    have step: "bin_reads tm (Suc 0) rs (append_read (tid r) (Suc 0) r rd, append_read (cluster_id tx) (Suc 0) r cd) = Inr (rd', cd')"
      by simp
    have b1: "binned tid M1 (M2 @ [r]) (append_read (tid r) (Suc 0) r rd)"
      using binned_append2[OF Cons.prems(2)] .
    have b2: "binned (\<lambda>r. cluster_id (the (tm (tid r)))) M1 (M2 @ [r]) (append_read (cluster_id tx) (Suc 0) r cd)"
      using binned_append2[OF Cons.prems(3), of r] tx by simp
    from Cons.IH[OF step b1 b2] False show ?thesis by simp
  qed
qed

lemma map_reads_to_references_binned:
  assumes "map_reads_to_references pe tm = Inr (rd, cd)"
  shows "binned tid (filter (\<lambda>r. \<not> is_unmapped r) (fst pe)) (filter (\<lambda>r. \<not> is_unmapped r) (snd pe)) rd"
    and "binned (\<lambda>r. cluster_id (the (tm (tid r))))
           (filter (\<lambda>r. \<not> is_unmapped r) (fst pe)) (filter (\<lambda>r. \<not> is_unmapped r) (snd pe)) cd"
proof -
  from assms obtain rd0 cd0 where
    1: "bin_reads tm 0 (fst pe) ([], []) = Inr (rd0, cd0)" and
    2: "bin_reads tm (Suc 0) (snd pe) (rd0, cd0) = Inr (rd, cd)"
    by (auto simp: map_reads_to_references_def split: sum.splits)
  have e: "binned kf [] [] []" for kf :: "read \<Rightarrow> int"
    by (simp add: binned_def)
  from bin_reads_binned1[OF 1 e e]
  have 3: "binned tid (filter (\<lambda>r. \<not> is_unmapped r) (fst pe)) [] rd0"
    "binned (\<lambda>r. cluster_id (the (tm (tid r)))) (filter (\<lambda>r. \<not> is_unmapped r) (fst pe)) [] cd0"
    by simp_all
  from bin_reads_binned2[OF 2 3]
  show "binned tid (filter (\<lambda>r. \<not> is_unmapped r) (fst pe)) (filter (\<lambda>r. \<not> is_unmapped r) (snd pe)) rd"
    and "binned (\<lambda>r. cluster_id (the (tm (tid r))))
           (filter (\<lambda>r. \<not> is_unmapped r) (fst pe)) (filter (\<lambda>r. \<not> is_unmapped r) (snd pe)) cd"
    by simp_all
qed

lemma reference_candidates:
  assumes "map_reads_to_references pe tm = Inr (rd, cd)"
  shows "set (candidates rd) =
     {(r1, r2). r1 \<in> set (fst pe) \<and> r2 \<in> set (snd pe) \<and> \<not> is_unmapped r1 \<and> \<not> is_unmapped r2 \<and>
                tid r1 = tid r2}"
  using binned_candidates[OF map_reads_to_references_binned(1)[OF assms]] by auto

lemma cluster_candidates:
  assumes "map_reads_to_references pe tm = Inr (rd, cd)"
  shows "set (candidates cd) =
     {(r1, r2). r1 \<in> set (fst pe) \<and> r2 \<in> set (snd pe) \<and> \<not> is_unmapped r1 \<and> \<not> is_unmapped r2 \<and>
                cluster_id (the (tm (tid r1))) = cluster_id (the (tm (tid r2)))}"
  using binned_candidates[OF map_reads_to_references_binned(2)[OF assms]] by auto

subsection \<open>The order of the visit\<close>

lemma candidates_set_cong: "set d' = set d \<Longrightarrow> set (candidates d') = set (candidates d)"
  by (simp add: candidates_def)

lemma candidates_Nil_cong: "set d' = set d \<Longrightarrow> candidates d' = [] \<longleftrightarrow> candidates d = []"
  using candidates_set_cong[of d' d] by (metis set_empty)

lemma mset_single_list: "mset xs = mset [b] \<Longrightarrow> xs = [b]"
  by (cases xs) (auto split: if_splits)

subsection \<open>A fragment of one alignment per mate on one reference\<close>

lemma bin_single_pair:
  assumes "\<not> is_unmapped x" "\<not> is_unmapped y" "tid x = tid y" "tm (tid x) = Some tx"
  shows "map_reads_to_references ([x], [y]) tm =
           Inr ([(tid x, [x], [y])], [(cluster_id tx, [x], [y])])"
  using assms by (simp add: map_reads_to_references_def)

lemma classify_single_pair:
  assumes "\<not> is_unmapped x" "\<not> is_unmapped y" "tid x = tid y" "tm (tid x) = Some tx"
    and every_bucket: "\<And>d. mset (iteritems X d) = mset d"
  shows "classify_read_pairs X ([x], [y]) mi lt tm =
           Inr ([pair_reads x y
                   [(DISCORDANT_TAG_NAME,
                     TagD (if same_strand X lt = (is_reverse x = is_reverse y)
                           then CONCORDANT_TX else DISCORDANT_STRAND_TX))]],
                [], ([x], [y]))"
  by (cases "is_reverse x"; cases "is_reverse y"; cases "same_strand X lt")
     (simp_all add: classify_read_pairs_def
        bin_single_pair[where tm = tm and x = x and y = y, OF assms(1-4)]
        mset_single_list[OF every_bucket]
        classify_binned_closed candidates_def strand_ok_def tag_pairs_def copy_read_def)

subsection \<open>Writing a fragment\<close>

lemma write_reads_file:
  "write_reads rs (Samfile h) ch = Inr (ch(h := ch h @ rs))"
  by (induction rs arbitrary: ch) (simp_all add: write_read_def)

lemma write_pe_reads_file:
  "write_pe_reads X (PeReads [m1, m2]) (Samfile h) ch = Inr (ch(h := ch h @ m1 @ m2))"
  by (simp add: write_pe_reads_def write_reads_file)

lemma dispatch_zero_count_writes_nothing:
  assumes "count_transcriptome_multimaps X (fst pe) gm = Inr na"
    and "count_transcriptome_multimaps X (snd pe) gm = Inr nb"
    and "min na nb = 0"
    and "dispatch_fragment X mi mh lt tm gm pe ch = Inr ch'"
  shows "ch' = ch"
  using assms write_pe_reads_swapped[of X Unpairedfh "PeReads [fst pe, snd pe]" ch ch']
  by (simp add: dispatch_fragment_def)

subsection \<open>The annotation of the last state\<close>

text \<open>
  The annotation appends two tags, so no record is left as it was.
\<close>

lemma annotate_changes: "annotate X lt r \<noteq> r"
proof
  assume "annotate X lt r = r"
  then have "tags (annotate X lt r) = tags r" by simp
  then show False by (simp add: annotate_def)
qed

lemma map_annotate_fixed: "map (annotate X lt) rs = rs \<Longrightarrow> rs = []"
  by (cases rs) (auto simp: annotate_changes)

section \<open>The Multimap Resolver counts distinct loci\<close>

text \<open>
  C6, as stated, fails. Mate 1 has a mapped alignment on transcript 1, with locus key
  (7, 1100, 1149), followed by a record with the unmapped flag: the alignments of the mate
  have one distinct locus key, and the result is 0.
\<close>

theorem multimap_count_counterexample:
  "\<not> is_unmapped ex_a \<and> ex_genome_map (tid ex_a) \<noteq> None \<and> is_unmapped ex_u
   \<and> locus_key ex_ext ex_genome_map ex_a = (7, 1100, 1149)
   \<and> card (locus_key ex_ext ex_genome_map ` {ex_a}) = 1
   \<and> count_transcriptome_multimaps ex_ext [ex_a, ex_u] ex_genome_map = Inr 0"
  by (simp add: count_transcriptome_multimaps_def locus_key_def ex_defs)

text \<open>
  C6, amended. On a list whose records are all mapped and all have their reference id in
  the genome table, \<^verbatim>\<open>count_transcriptome_multimaps\<close> returns the number of distinct locus
  keys, a key being the genome reference, the projected start and the projected position
  of \<^verbatim>\<open>aend - 1\<close>. Two alignments to different transcripts with the same key count once.
  On the empty list the result is 0.
\<close>

theorem multimap_count_distinct_loci:
  "count_transcriptome_multimaps X [] gm = Inr 0
   \<and> locus_key X gm r =
       (fst (transcript_to_genome_pos X (tid r) (pos r) gm),
        snd (snd (transcript_to_genome_pos X (tid r) (pos r) gm)),
        snd (snd (transcript_to_genome_pos X (tid r) (aend r - 1) gm)))
   \<and> ((\<forall>r\<in>set reads. \<not> is_unmapped r \<and> gm (tid r) \<noteq> None) \<longrightarrow>
        count_transcriptome_multimaps X reads gm = Inr (card (locus_key X gm ` set reads)))
   \<and> (\<not> is_unmapped a \<and> \<not> is_unmapped b \<and> gm (tid a) \<noteq> None \<and> gm (tid b) \<noteq> None \<and>
      tid a \<noteq> tid b \<and> locus_key X gm a = locus_key X gm b \<longrightarrow>
        count_transcriptome_multimaps X [a, b] gm = Inr 1)"
proof -
  have e: "count_transcriptome_multimaps X [] gm = Inr 0"
    by (simp add: count_transcriptome_multimaps_def)
  have k: "locus_key X gm r =
       (fst (transcript_to_genome_pos X (tid r) (pos r) gm),
        snd (snd (transcript_to_genome_pos X (tid r) (pos r) gm)),
        snd (snd (transcript_to_genome_pos X (tid r) (aend r - 1) gm)))"
    by (simp add: locus_key_def split: prod.splits)
  have g: "count_transcriptome_multimaps X rs gm = Inr (card (locus_key X gm ` set rs))"
    if "\<forall>r\<in>set rs. \<not> is_unmapped r \<and> gm (tid r) \<noteq> None" for rs
    using count_loop_mapped[OF that, of X "{}"] by (simp add: count_transcriptome_multimaps_def)
  have two: "count_transcriptome_multimaps X [a, b] gm = Inr 1"
    if "\<not> is_unmapped a" "\<not> is_unmapped b" "gm (tid a) \<noteq> None" "gm (tid b) \<noteq> None"
       "locus_key X gm a = locus_key X gm b"
    using g[of "[a, b]"] that by simp
  from e k g two show ?thesis by blast
qed

theorem multimap_count_distinct_loci_witness:
  "count_transcriptome_multimaps ex_ext [ex_a, ex_b, ex_c] ex_genome_map = Inr 2
   \<and> count_transcriptome_multimaps ex_ext [ex_a, ex_b] ex_genome_map = Inr 1
   \<and> tid ex_a \<noteq> tid ex_b
   \<and> locus_key ex_ext ex_genome_map ex_a = (7, 1100, 1149)
   \<and> locus_key ex_ext ex_genome_map ex_b = (7, 1100, 1149)"
  using multimap_count_distinct_loci[of ex_ext ex_genome_map ex_a "[ex_a, ex_b, ex_c]" ex_a ex_b]
  by (simp add: locus_key_def ex_defs)

section \<open>An unmapped record ends the count\<close>

text \<open>
  C10. When the loop of \<^verbatim>\<open>count_transcriptome_multimaps\<close> reaches a record with the unmapped
  flag (the records before it mapped and known to the genome table), the result is 0,
  whatever records stand before and after it: a count of 0 does not mean an empty list.
  The dispatcher then takes its first branch, the call of line 270, and the classifier
  is not run (the other mate's count is assumed to return).
\<close>

theorem unmapped_record_gives_zero:
  assumes "\<forall>r\<in>set pre. \<not> is_unmapped r \<and> gm (tid r) \<noteq> None" and "is_unmapped u"
  shows "count_transcriptome_multimaps X (pre @ u # post) gm = Inr 0
    \<and> (count_transcriptome_multimaps X m2 gm = Inr n \<longrightarrow>
        dispatch_fragment X mi mh lt tm gm (pre @ u # post, m2) ch =
        write_pe_reads X (Samfile Unpairedfh) (PeReads [pre @ u # post, m2]) ch)
    \<and> (count_transcriptome_multimaps X m1 gm = Inr n \<longrightarrow>
        dispatch_fragment X mi mh lt tm gm (m1, pre @ u # post) ch =
        write_pe_reads X (Samfile Unpairedfh) (PeReads [m1, pre @ u # post]) ch)"
proof -
  have z: "count_transcriptome_multimaps X (pre @ u # post) gm = Inr 0"
    using count_loop_unmapped[OF assms, of X "{}" post]
    by (simp add: count_transcriptome_multimaps_def)
  have l: "dispatch_fragment X mi mh lt tm gm (pre @ u # post, m2) ch =
        write_pe_reads X (Samfile Unpairedfh) (PeReads [pre @ u # post, m2]) ch"
    if "count_transcriptome_multimaps X m2 gm = Inr n"
    using z that by (simp add: dispatch_fragment_def)
  have r: "dispatch_fragment X mi mh lt tm gm (m1, pre @ u # post) ch =
        write_pe_reads X (Samfile Unpairedfh) (PeReads [m1, pre @ u # post]) ch"
    if "count_transcriptome_multimaps X m1 gm = Inr n"
    using z that by (simp add: dispatch_fragment_def)
  from z l r show ?thesis by blast
qed

theorem unmapped_record_gives_zero_witness:
  "count_transcriptome_multimaps ex_ext [ex_a, ex_u, ex_c] ex_genome_map = Inr 0
   \<and> \<not> is_unmapped ex_a \<and> is_unmapped ex_u
   \<and> count_transcriptome_multimaps ex_ext [ex_d] ex_genome_map = Inr 1
   \<and> dispatch_fragment ex_ext 0 2 False ex_tx_map ex_genome_map ([ex_a, ex_u, ex_c], [ex_d]) ex_ch =
     write_pe_reads ex_ext (Samfile Unpairedfh) (PeReads [[ex_a, ex_u, ex_c], [ex_d]]) ex_ch
   \<and> dispatch_fragment ex_ext 0 2 False ex_tx_map ex_genome_map ([ex_d], [ex_a, ex_u, ex_c]) ex_ch =
     write_pe_reads ex_ext (Samfile Unpairedfh) (PeReads [[ex_d], [ex_a, ex_u, ex_c]]) ex_ch"
proof -
  have h1: "\<forall>r\<in>set [ex_a]. \<not> is_unmapped r \<and> ex_genome_map (tid r) \<noteq> None"
    by (simp add: ex_defs)
  have h2: "is_unmapped ex_u" by (simp add: ex_defs)
  have c: "count_transcriptome_multimaps ex_ext [ex_d] ex_genome_map = Inr 1"
    by (simp add: count_transcriptome_multimaps_def ex_defs)
  show ?thesis
    using unmapped_record_gives_zero[OF h1 h2, of ex_ext "[ex_c]" "[ex_d]" 1 0 2 False ex_tx_map ex_ch "[ex_d]"] c h2
    by (simp add: ex_a_def)
qed

section \<open>A missing reference id\<close>

text \<open>
  C9, as stated, fails: in the list of an unmapped record followed by a mapped record whose
  reference id is not in the genome table, the counter returns 0 at the first record and
  never examines the second.
\<close>

theorem missing_reference_counterexample:
  "\<not> is_unmapped ex_x \<and> ex_genome_map (tid ex_x) = None
   \<and> count_transcriptome_multimaps ex_ext [ex_u, ex_x] ex_genome_map = Inr 0"
  by (simp add: count_transcriptome_multimaps_def ex_defs)

text \<open>
  C9, amended. A mapped record whose reference id is missing from the table fails the
  assertion whenever the loop reaches it: in the binner (and so in the classifier) any such
  record of either mate, in the multimap counter any such record with only mapped, known
  records before it. When every mapped record has its reference id in the table, both
  functions return a result.
\<close>

theorem missing_reference_is_fatal_when_reached:
  "(r \<in> set (fst pe) \<union> set (snd pe) \<and> \<not> is_unmapped r \<and> tm (tid r) = None \<longrightarrow>
      map_reads_to_references pe tm = Inl AssertionError \<and>
      classify_read_pairs X pe mi lt tm = Inl AssertionError)
   \<and> ((\<forall>p\<in>set pre. \<not> is_unmapped p \<and> gm (tid p) \<noteq> None) \<and> \<not> is_unmapped r \<and> gm (tid r) = None \<longrightarrow>
      count_transcriptome_multimaps X (pre @ r # post) gm = Inl AssertionError)
   \<and> ((\<forall>r\<in>set (fst pe) \<union> set (snd pe). \<not> is_unmapped r \<longrightarrow> tm (tid r) \<noteq> None) \<longrightarrow>
      (\<exists>d. map_reads_to_references pe tm = Inr d))
   \<and> ((\<forall>r\<in>set reads. \<not> is_unmapped r \<longrightarrow> gm (tid r) \<noteq> None) \<longrightarrow>
      (\<exists>n. count_transcriptome_multimaps X reads gm = Inr n))"
proof -
  have b: "map_reads_to_references pe tm = Inl AssertionError"
    if "r \<in> set (fst pe) \<union> set (snd pe)" "\<not> is_unmapped r" "tm (tid r) = None"
  proof (cases "bin_reads tm 0 (fst pe) ([], [])")
    case (Inl e)
    then have "bin_reads tm 0 (fst pe) ([], []) = Inl AssertionError"
      using bin_reads_error[of tm 0 "fst pe" "([], [])" e] by simp
    then show ?thesis by (simp add: map_reads_to_references_def)
  next
    case (Inr d)
    have "\<not> (\<exists>r\<in>set (fst pe). \<not> is_unmapped r \<and> tm (tid r) = None)"
    proof
      assume "\<exists>r\<in>set (fst pe). \<not> is_unmapped r \<and> tm (tid r) = None"
      then have "bin_reads tm 0 (fst pe) ([], []) = Inl AssertionError"
        by (rule bin_reads_absent)
      with Inr show False by simp
    qed
    with that have "\<exists>r\<in>set (snd pe). \<not> is_unmapped r \<and> tm (tid r) = None" by auto
    then have "bin_reads tm 1 (snd pe) d = Inl AssertionError"
      by (rule bin_reads_absent)
    with Inr show ?thesis by (simp add: map_reads_to_references_def)
  qed
  have c: "count_transcriptome_multimaps X (pre @ r # post) gm = Inl AssertionError"
    if "\<forall>p\<in>set pre. \<not> is_unmapped p \<and> gm (tid p) \<noteq> None" "\<not> is_unmapped r" "gm (tid r) = None"
    using count_loop_absent[OF that, of X "{}" post] by (simp add: count_transcriptome_multimaps_def)
  have bt: "\<exists>d. map_reads_to_references pe tm = Inr d"
    if "\<forall>r\<in>set (fst pe) \<union> set (snd pe). \<not> is_unmapped r \<longrightarrow> tm (tid r) \<noteq> None"
  proof -
    from that obtain d where d: "bin_reads tm 0 (fst pe) ([], []) = Inr d"
      using bin_reads_total[of "fst pe" tm 0 "([], [])"] by auto
    from that obtain d' where "bin_reads tm 1 (snd pe) d = Inr d'"
      using bin_reads_total[of "snd pe" tm 1 d] by auto
    with d show ?thesis by (simp add: map_reads_to_references_def)
  qed
  have ct: "\<exists>n. count_transcriptome_multimaps X reads gm = Inr n"
    if "\<forall>r\<in>set reads. \<not> is_unmapped r \<longrightarrow> gm (tid r) \<noteq> None"
    using count_loop_total[OF that, of X "{}"] by (simp add: count_transcriptome_multimaps_def)
  from b c bt ct show ?thesis by (simp add: classify_read_pairs_def)
qed

theorem missing_reference_is_fatal_when_reached_witness:
  "map_reads_to_references ([ex_u, ex_a], [ex_x]) ex_tx_map = Inl AssertionError
   \<and> classify_read_pairs ex_ext ([ex_u, ex_a], [ex_x]) 0 False ex_tx_map = Inl AssertionError
   \<and> count_transcriptome_multimaps ex_ext [ex_a, ex_x, ex_u] ex_genome_map = Inl AssertionError
   \<and> (\<exists>d. map_reads_to_references ([ex_u, ex_a], [ex_d]) ex_tx_map = Inr d)
   \<and> (\<exists>n. count_transcriptome_multimaps ex_ext [ex_a, ex_b, ex_u] ex_genome_map = Inr n)"
proof -
  note t1 = missing_reference_is_fatal_when_reached[of ex_x "([ex_u, ex_a], [ex_x])" ex_tx_map ex_ext 0 False
      "[ex_a]" ex_genome_map "[ex_u]" "[]"]
  note t2 = missing_reference_is_fatal_when_reached[of ex_x "([ex_u, ex_a], [ex_d])" ex_tx_map ex_ext 0 False
      "[]" ex_genome_map "[]" "[ex_a, ex_b, ex_u]"]
  have a: "map_reads_to_references ([ex_u, ex_a], [ex_x]) ex_tx_map = Inl AssertionError
   \<and> classify_read_pairs ex_ext ([ex_u, ex_a], [ex_x]) 0 False ex_tx_map = Inl AssertionError
   \<and> count_transcriptome_multimaps ex_ext [ex_a, ex_x, ex_u] ex_genome_map = Inl AssertionError"
    using t1 by (simp add: ex_defs)
  have b: "(\<exists>d. map_reads_to_references ([ex_u, ex_a], [ex_d]) ex_tx_map = Inr d)
   \<and> (\<exists>n. count_transcriptome_multimaps ex_ext [ex_a, ex_b, ex_u] ex_genome_map = Inr n)"
    using t2 by (simp add: ex_defs)
  from a b show ?thesis by simp
qed

section \<open>Selection among the pairs of the first two stages\<close>

text \<open>
  C5. Let the binner have returned its two dictionaries. The four lists of the source are
  the concordant and the discordant pairs of the reference buckets and, when the reference
  buckets gave no combination at all, those of the cluster buckets. The classifier returns
  the CONCORDANT_TX pairs when there are any; else the CONCORDANT_GENE pairs when there are
  any; else the DISCORDANT_STRAND_TX pairs; else the DISCORDANT_STRAND_GENE pairs. In each
  case it returns the whole list, with an empty residual. The last two conjuncts say that
  the four lists are what the loops of lines 123-169 compute.
\<close>

theorem selection_order:
  fixes X :: "('l, 'g) externals" and pe mi lt tm and refdict clusterdict :: "int bins"
    and same concordant_tx_pairs discordant_tx_pairs concordant_cluster_pairs discordant_cluster_pairs
  assumes binned: "map_reads_to_references pe tm = Inr (refdict, clusterdict)"
  defines "same \<equiv> same_strand X lt"
    and "concordant_tx_pairs \<equiv> tag_pairs CONCORDANT_TX (filter (strand_ok same) (candidates (iteritems X refdict)))"
    and "discordant_tx_pairs \<equiv>
           tag_pairs DISCORDANT_STRAND_TX (filter (\<lambda>p. \<not> strand_ok same p) (candidates (iteritems X refdict)))"
    and "concordant_cluster_pairs \<equiv>
           (if candidates (iteritems X refdict) = []
            then tag_pairs CONCORDANT_GENE (filter (strand_ok same) (candidates (iteritems X clusterdict))) else [])"
    and "discordant_cluster_pairs \<equiv>
           (if candidates (iteritems X refdict) = []
            then tag_pairs DISCORDANT_STRAND_GENE (filter (\<lambda>p. \<not> strand_ok same p) (candidates (iteritems X clusterdict)))
            else [])"
  shows "(concordant_tx_pairs \<noteq> [] \<longrightarrow>
            classify_read_pairs X pe mi lt tm = Inr (concordant_tx_pairs, [], pe))
       \<and> (concordant_tx_pairs = [] \<and> concordant_cluster_pairs \<noteq> [] \<longrightarrow>
            classify_read_pairs X pe mi lt tm = Inr (concordant_cluster_pairs, [], pe))
       \<and> (concordant_tx_pairs = [] \<and> concordant_cluster_pairs = [] \<and> discordant_tx_pairs \<noteq> [] \<longrightarrow>
            classify_read_pairs X pe mi lt tm = Inr (discordant_tx_pairs, [], pe))
       \<and> (concordant_tx_pairs = [] \<and> concordant_cluster_pairs = [] \<and> discordant_tx_pairs = [] \<and>
          discordant_cluster_pairs \<noteq> [] \<longrightarrow>
            classify_read_pairs X pe mi lt tm = Inr (discordant_cluster_pairs, [], pe))
       \<and> pair_buckets same CONCORDANT_TX DISCORDANT_STRAND_TX (iteritems X refdict) (False, [], []) =
           (candidates (iteritems X refdict) \<noteq> [], concordant_tx_pairs, discordant_tx_pairs)
       \<and> (if candidates (iteritems X refdict) = []
          then pair_buckets same CONCORDANT_GENE DISCORDANT_STRAND_GENE (iteritems X clusterdict)
                 (False, [], [])
          else (True, [], [])) =
           (candidates (iteritems X refdict) \<noteq> [] \<or> candidates (iteritems X clusterdict) \<noteq> [],
            concordant_cluster_pairs, discordant_cluster_pairs)"
proof -
  have c: "classify_read_pairs X pe mi lt tm = Inr (classify_binned X refdict clusterdict pe lt)"
    using binned by (simp add: classify_read_pairs_def)
  have n: "filter (\<lambda>p. \<not> strand_ok same p) ps \<noteq> []" if "filter (strand_ok same) ps = []" "ps \<noteq> []" for ps
    using that filter_both_Nil by blast
  show ?thesis
    unfolding c classify_binned_closed concordant_tx_pairs_def discordant_tx_pairs_def
      concordant_cluster_pairs_def discordant_cluster_pairs_def pair_buckets_closed same_def[symmetric]
    using n[of "candidates (iteritems X refdict)"] n[of "candidates (iteritems X clusterdict)"]
    by (auto simp: tag_pairs_Nil_iff)
qed

theorem selection_order_witness:
  "classify_read_pairs ex_ext ([ex_a], [ex_d]) 0 False ex_tx_map =
     Inr ([pair_reads ex_a ex_d [(DISCORDANT_TAG_NAME, TagD CONCORDANT_TX)]], [], ([ex_a], [ex_d]))
   \<and> classify_read_pairs ex_ext ([ex_b], [ex_d]) 0 False ex_tx_map =
     Inr ([pair_reads ex_b ex_d [(DISCORDANT_TAG_NAME, TagD CONCORDANT_GENE)]], [], ([ex_b], [ex_d]))
   \<and> classify_read_pairs ex_ext ([ex_a], [ex_d]) 0 True ex_tx_map =
     Inr ([pair_reads ex_a ex_d [(DISCORDANT_TAG_NAME, TagD DISCORDANT_STRAND_TX)]], [], ([ex_a], [ex_d]))
   \<and> classify_read_pairs ex_ext ([ex_b], [ex_d]) 0 True ex_tx_map =
     Inr ([pair_reads ex_b ex_d [(DISCORDANT_TAG_NAME, TagD DISCORDANT_STRAND_GENE)]], [], ([ex_b], [ex_d]))"
proof -
  have b1: "map_reads_to_references ([ex_a], [ex_d]) ex_tx_map =
              Inr ([(1, [ex_a], [ex_d])], [(10, [ex_a], [ex_d])])"
    by (simp add: map_reads_to_references_def ex_defs)
  have b2: "map_reads_to_references ([ex_b], [ex_d]) ex_tx_map =
              Inr ([(2, [ex_b], []), (1, [], [ex_d])], [(10, [ex_b], [ex_d])])"
    by (simp add: map_reads_to_references_def ex_defs)
  have s: "\<not> is_reverse ex_a" "\<not> is_reverse ex_b" "is_reverse ex_d" "same_strand ex_ext l = l"
    "iteritems ex_ext d = d" for l d
    by (simp_all add: ex_defs)
  have 1: "classify_read_pairs ex_ext ([ex_a], [ex_d]) 0 False ex_tx_map =
     Inr ([pair_reads ex_a ex_d [(DISCORDANT_TAG_NAME, TagD CONCORDANT_TX)]], [], ([ex_a], [ex_d]))"
    using selection_order[OF b1, where X = ex_ext and lt = False and mi = 0] s
    by (simp add: candidates_def strand_ok_def tag_pairs_def copy_read_def)
  have 2: "classify_read_pairs ex_ext ([ex_b], [ex_d]) 0 False ex_tx_map =
     Inr ([pair_reads ex_b ex_d [(DISCORDANT_TAG_NAME, TagD CONCORDANT_GENE)]], [], ([ex_b], [ex_d]))"
    using selection_order[OF b2, where X = ex_ext and lt = False and mi = 0] s
    by (simp add: candidates_def strand_ok_def tag_pairs_def copy_read_def)
  have 3: "classify_read_pairs ex_ext ([ex_a], [ex_d]) 0 True ex_tx_map =
     Inr ([pair_reads ex_a ex_d [(DISCORDANT_TAG_NAME, TagD DISCORDANT_STRAND_TX)]], [], ([ex_a], [ex_d]))"
    using selection_order[OF b1, where X = ex_ext and lt = True and mi = 0] s
    by (simp add: candidates_def strand_ok_def tag_pairs_def copy_read_def)
  have 4: "classify_read_pairs ex_ext ([ex_b], [ex_d]) 0 True ex_tx_map =
     Inr ([pair_reads ex_b ex_d [(DISCORDANT_TAG_NAME, TagD DISCORDANT_STRAND_GENE)]], [], ([ex_b], [ex_d]))"
    using selection_order[OF b2, where X = ex_ext and lt = True and mi = 0] s
    by (simp add: candidates_def strand_ok_def tag_pairs_def copy_read_def)
  from 1 2 3 4 show ?thesis by simp
qed

section \<open>Reference-level candidates shut out the cluster stage\<close>

text \<open>
  C4. The reference stage has a candidate exactly when some mapped record of mate 1 and some
  mapped record of mate 2 share a reference id. In that case the classifier returns
  transcript-level pairs only and its result does not depend on the cluster dictionary,
  whatever pairings that dictionary offers. Conversely, a returned pair that ends in a
  CONCORDANT_GENE or DISCORDANT_STRAND_GENE tag shows that the reference stage had no
  candidate.
\<close>

theorem reference_pairing_preempts_cluster_pairing:
  fixes X :: "('l, 'g) externals" and pe mi lt tm and refdict clusterdict :: "int bins" and same
  assumes binned: "map_reads_to_references pe tm = Inr (refdict, clusterdict)"
    and every_bucket: "\<And>d. mset (iteritems X d) = mset d"
  defines "same \<equiv> same_strand X lt"
  shows "(candidates (iteritems X refdict) \<noteq> []) =
           (\<exists>r1\<in>set (fst pe). \<exists>r2\<in>set (snd pe).
              \<not> is_unmapped r1 \<and> \<not> is_unmapped r2 \<and> tid r1 = tid r2)
       \<and> (candidates (iteritems X refdict) \<noteq> [] \<longrightarrow>
            classify_read_pairs X pe mi lt tm =
              Inr (if filter (strand_ok same) (candidates (iteritems X refdict)) \<noteq> []
                   then tag_pairs CONCORDANT_TX (filter (strand_ok same) (candidates (iteritems X refdict)))
                   else tag_pairs DISCORDANT_STRAND_TX
                          (filter (\<lambda>p. \<not> strand_ok same p) (candidates (iteritems X refdict))),
                   [], pe)
            \<and> (\<forall>other. classify_binned X refdict other pe lt =
                        classify_binned X refdict clusterdict pe lt))
       \<and> (\<forall>ps res pe' p. classify_read_pairs X pe mi lt tm = Inr (ps, res, pe') \<and> p \<in> set ps \<and>
             (last (tags (fst p)) = (DISCORDANT_TAG_NAME, TagD CONCORDANT_GENE) \<or>
              last (tags (fst p)) = (DISCORDANT_TAG_NAME, TagD DISCORDANT_STRAND_GENE)) \<longrightarrow>
             candidates (iteritems X refdict) = [])"
proof -
  have c: "classify_read_pairs X pe mi lt tm = Inr (classify_binned X refdict clusterdict pe lt)"
    using binned by (simp add: classify_read_pairs_def)
  have "set (candidates (iteritems X refdict)) \<noteq> {} \<longleftrightarrow>
          (\<exists>r1\<in>set (fst pe). \<exists>r2\<in>set (snd pe).
              \<not> is_unmapped r1 \<and> \<not> is_unmapped r2 \<and> tid r1 = tid r2)"
    unfolding candidates_set_cong[OF mset_eq_setD[OF every_bucket]] reference_candidates[OF binned]
    by auto
  then have i: "(candidates (iteritems X refdict) \<noteq> []) =
           (\<exists>r1\<in>set (fst pe). \<exists>r2\<in>set (snd pe).
              \<not> is_unmapped r1 \<and> \<not> is_unmapped r2 \<and> tid r1 = tid r2)"
    by simp
  have n: "filter (\<lambda>p. \<not> strand_ok same p) (candidates (iteritems X refdict)) \<noteq> []"
    if "filter (strand_ok same) (candidates (iteritems X refdict)) = []" "candidates (iteritems X refdict) \<noteq> []"
    using that filter_both_Nil by blast
  have ii: "classify_binned X refdict other pe lt =
              (if filter (strand_ok same) (candidates (iteritems X refdict)) \<noteq> []
               then tag_pairs CONCORDANT_TX (filter (strand_ok same) (candidates (iteritems X refdict)))
               else tag_pairs DISCORDANT_STRAND_TX
                      (filter (\<lambda>p. \<not> strand_ok same p) (candidates (iteritems X refdict))),
               [], pe)"
    if "candidates (iteritems X refdict) \<noteq> []" for other
    using that by (simp add: classify_binned_closed same_def)
  have iii: "candidates (iteritems X refdict) = []"
    if r: "classify_read_pairs X pe mi lt tm = Inr (ps, res, pe')" and p: "p \<in> set ps"
      and l: "last (tags (fst p)) = (DISCORDANT_TAG_NAME, TagD CONCORDANT_GENE) \<or>
              last (tags (fst p)) = (DISCORDANT_TAG_NAME, TagD DISCORDANT_STRAND_GENE)"
    for ps res pe' p
  proof (rule ccontr)
    assume ne: "candidates (iteritems X refdict) \<noteq> []"
    from r c ii[OF ne, of clusterdict]
    have "ps = (if filter (strand_ok same) (candidates (iteritems X refdict)) \<noteq> []
               then tag_pairs CONCORDANT_TX (filter (strand_ok same) (candidates (iteritems X refdict)))
               else tag_pairs DISCORDANT_STRAND_TX
                      (filter (\<lambda>p. \<not> strand_ok same p) (candidates (iteritems X refdict))))"
      by simp
    with p have "last (tags (fst p)) = (DISCORDANT_TAG_NAME, TagD CONCORDANT_TX) \<or>
                 last (tags (fst p)) = (DISCORDANT_TAG_NAME, TagD DISCORDANT_STRAND_TX)"
      by (auto dest: last_tag_pairs split: if_splits)
    with l show False by auto
  qed
  have iv: "classify_read_pairs X pe mi lt tm =
              Inr (if filter (strand_ok same) (candidates (iteritems X refdict)) \<noteq> []
                   then tag_pairs CONCORDANT_TX (filter (strand_ok same) (candidates (iteritems X refdict)))
                   else tag_pairs DISCORDANT_STRAND_TX
                          (filter (\<lambda>p. \<not> strand_ok same p) (candidates (iteritems X refdict))),
                   [], pe)
            \<and> (\<forall>other. classify_binned X refdict other pe lt =
                        classify_binned X refdict clusterdict pe lt)"
    if "candidates (iteritems X refdict) \<noteq> []"
    using ii[OF that] c by simp
  from iii have v: "\<forall>ps res pe' p. classify_read_pairs X pe mi lt tm = Inr (ps, res, pe') \<and> p \<in> set ps \<and>
             (last (tags (fst p)) = (DISCORDANT_TAG_NAME, TagD CONCORDANT_GENE) \<or>
              last (tags (fst p)) = (DISCORDANT_TAG_NAME, TagD DISCORDANT_STRAND_GENE)) \<longrightarrow>
             candidates (iteritems X refdict) = []"
    by blast
  show ?thesis
    by (intro conjI) (rule i, rule impI, erule iv, rule v)
qed

text \<open>
  The example: mate 1 aligns forward to transcript 1 and reverse to transcript 2, mate 2
  reverse to transcript 1, and the library expects one strand. The cluster of the two
  transcripts holds a concordant combination, yet the result is the discordant
  transcript-level pair.
\<close>

theorem reference_pairing_preempts_cluster_pairing_witness:
  "map_reads_to_references ([ex_a, ex_f], [ex_d]) ex_tx_map =
     Inr ([(1, [ex_a], [ex_d]), (2, [ex_f], [])], [(10, [ex_a, ex_f], [ex_d])])
   \<and> candidates (iteritems ex_ext [(1, [ex_a], [ex_d]), (2, [ex_f], [])]) = [(ex_a, ex_d)]
   \<and> candidates (iteritems ex_ext [(10, [ex_a, ex_f], [ex_d])]) = [(ex_a, ex_d), (ex_f, ex_d)]
   \<and> strand_ok (same_strand ex_ext True) (ex_f, ex_d)
   \<and> classify_read_pairs ex_ext ([ex_a, ex_f], [ex_d]) 0 True ex_tx_map =
       Inr ([pair_reads ex_a ex_d [(DISCORDANT_TAG_NAME, TagD DISCORDANT_STRAND_TX)]], [],
            ([ex_a, ex_f], [ex_d]))"
proof -
  have b: "map_reads_to_references ([ex_a, ex_f], [ex_d]) ex_tx_map =
     Inr ([(1, [ex_a], [ex_d]), (2, [ex_f], [])], [(10, [ex_a, ex_f], [ex_d])])"
    by (simp add: map_reads_to_references_def ex_defs)
  have s: "\<not> is_reverse ex_a" "is_reverse ex_f" "is_reverse ex_d" "same_strand ex_ext l = l"
    "iteritems ex_ext d = d" for l d
    by (simp_all add: ex_defs)
  have p: "mset (iteritems ex_ext d) = mset d" for d
    by (simp add: ex_ext_def)
  show ?thesis
    using reference_pairing_preempts_cluster_pairing[OF b p, where lt = True and mi = 0] b s
    by (simp add: candidates_def strand_ok_def tag_pairs_def copy_read_def)
qed

section \<open>Cross-gene pairs\<close>

text \<open>
  C7. When neither the reference buckets nor the cluster buckets give a combination, the
  candidate pairs are the 5' hits of mate 1 with the 3' hits of mate 2, followed by the 3'
  hits of mate 1 with the 5' hits of mate 2. Both records of every candidate pair carry the
  DISCORDANT_GENE tag and their orientation, and the two orientations differ. A non-empty
  candidate list is handed to the best-scoring-pair selector; its result, a non-empty part
  of the candidates, is returned with an empty residual.
\<close>

theorem cross_gene_pairs_opposite_orientation:
  fixes X :: "('l, 'g) externals" and pe mi lt tm and refdict clusterdict :: "int bins"
    and mate1 mate2 gene_pairs
  assumes binned: "map_reads_to_references pe tm = Inr (refdict, clusterdict)"
    and no_candidates: "candidates (iteritems X refdict) = []"
      "candidates (iteritems X clusterdict) = []"
  defines "mate1 \<equiv> map (annotate X lt) (fst pe)"
    and "mate2 \<equiv> map (annotate X lt) (snd pe)"
    and "gene_pairs \<equiv>
           List.product (map (annotate X lt) (oriented X lt ORIENTATION_5P (fst pe)))
                        (map (annotate X lt) (oriented X lt ORIENTATION_3P (snd pe))) @
           List.product (map (annotate X lt) (oriented X lt ORIENTATION_3P (fst pe)))
                        (map (annotate X lt) (oriented X lt ORIENTATION_5P (snd pe)))"
  shows "find_discordant_pairs X pe lt = (gene_pairs, (mate1, mate2))
       \<and> (gene_pairs \<noteq> [] \<longrightarrow>
            classify_read_pairs X pe mi lt tm =
              Inr (select_best_scoring_pairs gene_pairs, [], (mate1, mate2)) \<and>
            select_best_scoring_pairs gene_pairs \<noteq> [] \<and>
            set (select_best_scoring_pairs gene_pairs) \<subseteq> set gene_pairs)
       \<and> (\<forall>(a, b) \<in> set gene_pairs. \<exists>r1\<in>set (fst pe). \<exists>r2\<in>set (snd pe).
            get_orientation X r1 lt \<noteq> get_orientation X r2 lt \<and>
            a = r1\<lparr>tags := tags r1 @ [(DISCORDANT_TAG_NAME, TagD DISCORDANT_GENE),
                                      (ORIENTATION_TAG, TagO (get_orientation X r1 lt))]\<rparr> \<and>
            b = r2\<lparr>tags := tags r2 @ [(DISCORDANT_TAG_NAME, TagD DISCORDANT_GENE),
                                      (ORIENTATION_TAG, TagO (get_orientation X r2 lt))]\<rparr>)"
proof -
  have f: "find_discordant_pairs X pe lt = (gene_pairs, (mate1, mate2))"
    by (simp add: find_discordant_pairs_closed gene_pairs_def mate1_def mate2_def)
  have c: "classify_read_pairs X pe mi lt tm = Inr (classify_binned X refdict clusterdict pe lt)"
    using binned by (simp add: classify_read_pairs_def)
  have r: "classify_read_pairs X pe mi lt tm =
              Inr (select_best_scoring_pairs gene_pairs, [], (mate1, mate2)) \<and>
            select_best_scoring_pairs gene_pairs \<noteq> [] \<and>
            set (select_best_scoring_pairs gene_pairs) \<subseteq> set gene_pairs"
    if "gene_pairs \<noteq> []"
  proof -
    have "classify_binned X refdict clusterdict pe lt =
            (select_best_scoring_pairs gene_pairs, [], (mate1, mate2))"
      unfolding classify_binned_closed f using that no_candidates by simp
    with c select_best_nonempty[OF that] select_best_subset[of gene_pairs]
    show ?thesis by simp
  qed
  have m: "\<forall>(a, b) \<in> set gene_pairs. \<exists>r1\<in>set (fst pe). \<exists>r2\<in>set (snd pe).
            get_orientation X r1 lt \<noteq> get_orientation X r2 lt \<and>
            a = r1\<lparr>tags := tags r1 @ [(DISCORDANT_TAG_NAME, TagD DISCORDANT_GENE),
                                      (ORIENTATION_TAG, TagO (get_orientation X r1 lt))]\<rparr> \<and>
            b = r2\<lparr>tags := tags r2 @ [(DISCORDANT_TAG_NAME, TagD DISCORDANT_GENE),
                                      (ORIENTATION_TAG, TagO (get_orientation X r2 lt))]\<rparr>"
  proof (clarify)
    fix a b
    assume "(a, b) \<in> set gene_pairs"
    then have "(a, b) \<in> set (fst (find_discordant_pairs X pe lt))" by (simp add: f)
    from find_discordant_pairs_mem[OF this]
    obtain r1 r2 where "r1 \<in> set (fst pe)" "r2 \<in> set (snd pe)"
      "a = annotate X lt r1" "b = annotate X lt r2"
      "get_orientation X r1 lt \<noteq> get_orientation X r2 lt"
      by blast
    then show "\<exists>r1\<in>set (fst pe). \<exists>r2\<in>set (snd pe).
            get_orientation X r1 lt \<noteq> get_orientation X r2 lt \<and>
            a = r1\<lparr>tags := tags r1 @ [(DISCORDANT_TAG_NAME, TagD DISCORDANT_GENE),
                                      (ORIENTATION_TAG, TagO (get_orientation X r1 lt))]\<rparr> \<and>
            b = r2\<lparr>tags := tags r2 @ [(DISCORDANT_TAG_NAME, TagD DISCORDANT_GENE),
                                      (ORIENTATION_TAG, TagO (get_orientation X r2 lt))]\<rparr>"
      unfolding annotate_def by blast
  qed
  show ?thesis
    by (intro conjI) (rule f, rule impI, erule r, rule m)
qed

theorem cross_gene_pairs_opposite_orientation_witness:
  "map_reads_to_references ([ex_a, ex_b], [ex_e, ex_c]) ex_tx_map =
     Inr ([(1, [ex_a], []), (2, [ex_b], []), (3, [], [ex_e, ex_c])],
          [(10, [ex_a, ex_b], []), (30, [], [ex_e, ex_c])])
   \<and> find_discordant_pairs ex_ext ([ex_a, ex_b], [ex_e, ex_c]) False =
       ([(annotate ex_ext False ex_a, annotate ex_ext False ex_e),
         (annotate ex_ext False ex_b, annotate ex_ext False ex_e)],
        ([annotate ex_ext False ex_a, annotate ex_ext False ex_b],
         [annotate ex_ext False ex_e, annotate ex_ext False ex_c]))
   \<and> classify_read_pairs ex_ext ([ex_a, ex_b], [ex_e, ex_c]) 0 False ex_tx_map =
       Inr ([(annotate ex_ext False ex_a, annotate ex_ext False ex_e)], [],
            ([annotate ex_ext False ex_a, annotate ex_ext False ex_b],
             [annotate ex_ext False ex_e, annotate ex_ext False ex_c]))
   \<and> tags (annotate ex_ext False ex_a) =
       [(DISCORDANT_TAG_NAME, TagD DISCORDANT_GENE), (ORIENTATION_TAG, TagO ORIENTATION_5P)]
   \<and> tags (annotate ex_ext False ex_e) =
       [(DISCORDANT_TAG_NAME, TagD DISCORDANT_GENE), (ORIENTATION_TAG, TagO ORIENTATION_3P)]"
proof -
  have b: "map_reads_to_references ([ex_a, ex_b], [ex_e, ex_c]) ex_tx_map =
     Inr ([(1, [ex_a], []), (2, [ex_b], []), (3, [], [ex_e, ex_c])],
          [(10, [ex_a, ex_b], []), (30, [], [ex_e, ex_c])])"
    by (simp add: map_reads_to_references_def ex_defs)
  have n: "candidates (iteritems ex_ext [(1, [ex_a], []), (2, [ex_b], []), (3, [], [ex_e, ex_c])]) = []"
    "candidates (iteritems ex_ext [(10, [ex_a, ex_b], []), (30, [], [ex_e, ex_c])]) = []"
    by (simp_all add: candidates_def ex_ext_def)
  have o: "get_orientation ex_ext ex_a False = ORIENTATION_5P"
    "get_orientation ex_ext ex_b False = ORIENTATION_5P"
    "get_orientation ex_ext ex_c False = ORIENTATION_5P"
    "get_orientation ex_ext ex_e False = ORIENTATION_3P"
    by (simp_all add: ex_defs)
  have sc: "score (annotate ex_ext False ex_a) = 40" "score (annotate ex_ext False ex_b) = 38"
    "score (annotate ex_ext False ex_e) = 30"
    by (simp_all add: annotate_def ex_defs)
  have t: "tags (annotate ex_ext False ex_a) =
       [(DISCORDANT_TAG_NAME, TagD DISCORDANT_GENE), (ORIENTATION_TAG, TagO ORIENTATION_5P)]"
    "tags (annotate ex_ext False ex_e) =
       [(DISCORDANT_TAG_NAME, TagD DISCORDANT_GENE), (ORIENTATION_TAG, TagO ORIENTATION_3P)]"
    by (simp_all add: annotate_def ex_defs)
  show ?thesis
    using cross_gene_pairs_opposite_orientation[OF b n, where lt = False and mi = 0] b t
    by (simp add: oriented_def o select_best_scoring_pairs_def pair_score_def sc)
qed

section \<open>The two outputs of the classifier exclude each other\<close>

text \<open>
  C8. The claim does not hold of the code in one point. When every mapped record of the
  fragment has its reference id in the transcript table, \<^verbatim>\<open>classify_read_pairs\<close> returns,
  pair list and residual are never both non-empty, and when both mate lists have a record
  they are never both empty: so far the claim holds. But the residual that comes with the
  empty pair list is not the original mate lists: it is the two mate lists with the
  DISCORDANT_GENE tag and the orientation tag appended to the tags of every record, as
  \<^verbatim>\<open>classify_unpaired_reads\<close> assigns to \<^verbatim>\<open>r.tags\<close> of the records of \<^verbatim>\<open>pe_reads\<close>
  themselves (lines 69-70). For every fragment with at least one record the residual
  therefore differs from the original mate lists (last conjunct).
\<close>

theorem classifier_output_exclusive:
  assumes inv: "\<forall>r\<in>set (fst pe) \<union> set (snd pe). \<not> is_unmapped r \<longrightarrow> tm (tid r) \<noteq> None"
  shows "\<exists>ps res pe'.
           classify_read_pairs X pe mi lt tm = Inr (ps, res, pe')
         \<and> ((ps \<noteq> [] \<and> res = []) \<or>
            (ps = [] \<and>
             res = [map (\<lambda>r. r\<lparr>tags := tags r @ [(DISCORDANT_TAG_NAME, TagD DISCORDANT_GENE),
                                                  (ORIENTATION_TAG, TagO (get_orientation X r lt))]\<rparr>)
                      (fst pe),
                    map (\<lambda>r. r\<lparr>tags := tags r @ [(DISCORDANT_TAG_NAME, TagD DISCORDANT_GENE),
                                                  (ORIENTATION_TAG, TagO (get_orientation X r lt))]\<rparr>)
                      (snd pe)]))
         \<and> (ps = [] \<or> concat res = [])
         \<and> (fst pe \<noteq> [] \<and> snd pe \<noteq> [] \<longrightarrow> ps \<noteq> [] \<or> concat res \<noteq> [])
         \<and> (ps = [] \<and> (fst pe \<noteq> [] \<or> snd pe \<noteq> []) \<longrightarrow> res \<noteq> [fst pe, snd pe])"
proof -
  from inv obtain d0 where d0: "bin_reads tm 0 (fst pe) ([], []) = Inr d0"
    using bin_reads_total[of "fst pe" tm 0 "([], [])"] by auto
  from inv obtain d where "bin_reads tm 1 (snd pe) d0 = Inr d"
    using bin_reads_total[of "snd pe" tm 1 d0] by auto
  with d0 have "map_reads_to_references pe tm = Inr d"
    by (simp add: map_reads_to_references_def)
  then obtain rd cd where b: "map_reads_to_references pe tm = Inr (rd, cd)"
    by (cases d) auto
  have c: "classify_read_pairs X pe mi lt tm = Inr (classify_binned X rd cd pe lt)"
    using b by (simp add: classify_read_pairs_def)
  have sel: "select_best_scoring_pairs ps \<noteq> []" if "ps \<noteq> []" for ps
    using that by (rule select_best_nonempty)
  obtain ps res pe' where r: "classify_binned X rd cd pe lt = (ps, res, pe')"
    by (cases "classify_binned X rd cd pe lt") auto
  have snd_f: "snd (find_discordant_pairs X pe lt) =
                 (map (annotate X lt) (fst pe), map (annotate X lt) (snd pe))"
    by (simp add: find_discordant_pairs_closed)
  have shape: "(ps \<noteq> [] \<and> res = []) \<or>
            (ps = [] \<and> res = [map (annotate X lt) (fst pe), map (annotate X lt) (snd pe)])"
  proof (cases "candidates (iteritems X rd) = []")
    case False
    then have "filter (strand_ok (same_strand X lt)) (candidates (iteritems X rd)) \<noteq> [] \<or>
               filter (\<lambda>p. \<not> strand_ok (same_strand X lt) p) (candidates (iteritems X rd)) \<noteq> []"
      using filter_both_Nil by blast
    with False r show ?thesis
      unfolding classify_binned_closed by (auto simp: tag_pairs_Nil_iff split: if_splits)
  next
    case rd: True
    show ?thesis
    proof (cases "candidates (iteritems X cd) = []")
      case False
      then have "filter (strand_ok (same_strand X lt)) (candidates (iteritems X cd)) \<noteq> [] \<or>
                 filter (\<lambda>p. \<not> strand_ok (same_strand X lt) p) (candidates (iteritems X cd)) \<noteq> []"
        using filter_both_Nil by blast
      with False rd r show ?thesis
        unfolding classify_binned_closed by (auto simp: tag_pairs_Nil_iff split: if_splits)
    next
      case cd: True
      show ?thesis
      proof (cases "fst (find_discordant_pairs X pe lt) = []")
        case True
        with rd cd r show ?thesis
          unfolding classify_binned_closed by (auto simp: snd_f)
      next
        case False
        from sel[OF False] False rd cd r show ?thesis
          unfolding classify_binned_closed by auto
      qed
    qed
  qed
  have ann: "annotate X lt =
      (\<lambda>r. r\<lparr>tags := tags r @ [(DISCORDANT_TAG_NAME, TagD DISCORDANT_GENE),
                                 (ORIENTATION_TAG, TagO (get_orientation X r lt))]\<rparr>)"
    by (rule ext) (simp add: annotate_def)
  from shape have e1: "ps = [] \<or> concat res = []" by auto
  from shape have e2: "fst pe \<noteq> [] \<and> snd pe \<noteq> [] \<longrightarrow> ps \<noteq> [] \<or> concat res \<noteq> []" by auto
  have e3: "ps = [] \<and> (fst pe \<noteq> [] \<or> snd pe \<noteq> []) \<longrightarrow> res \<noteq> [fst pe, snd pe]"
  proof (intro impI notI)
    assume a: "ps = [] \<and> (fst pe \<noteq> [] \<or> snd pe \<noteq> [])" and e: "res = [fst pe, snd pe]"
    with shape have "map (annotate X lt) (fst pe) = fst pe" "map (annotate X lt) (snd pe) = snd pe"
      by auto
    then have "fst pe = []" "snd pe = []" by (auto dest: map_annotate_fixed)
    with a show False by simp
  qed
  show ?thesis
    unfolding c r ann[symmetric] using shape e1 e2 e3
    by (intro exI[of _ ps] exI[of _ res] exI[of _ pe']) simp
qed

text \<open>
  Both alternatives occur. Mate 1 forward and mate 2 reverse on transcript 1 give one
  CONCORDANT_TX pair and the empty residual; mate 1 forward on transcript 1 and mate 2
  forward on transcript 3 give the empty pair list and a residual whose two records carry
  two tags each, which is not the pair of mate lists that went in.
\<close>

theorem classifier_output_exclusive_witness:
  "classify_read_pairs ex_ext ([ex_a], [ex_d]) 0 False ex_tx_map =
     Inr ([pair_reads ex_a ex_d [(DISCORDANT_TAG_NAME, TagD CONCORDANT_TX)]], [], ([ex_a], [ex_d]))
   \<and> classify_read_pairs ex_ext ([ex_a], [ex_c]) 0 False ex_tx_map =
     Inr ([],
          [[ex_a\<lparr>tags := [(DISCORDANT_TAG_NAME, TagD DISCORDANT_GENE),
                           (ORIENTATION_TAG, TagO ORIENTATION_5P)]\<rparr>],
           [ex_c\<lparr>tags := [(DISCORDANT_TAG_NAME, TagD DISCORDANT_GENE),
                           (ORIENTATION_TAG, TagO ORIENTATION_5P)]\<rparr>]],
          ([ex_a\<lparr>tags := [(DISCORDANT_TAG_NAME, TagD DISCORDANT_GENE),
                           (ORIENTATION_TAG, TagO ORIENTATION_5P)]\<rparr>],
           [ex_c\<lparr>tags := [(DISCORDANT_TAG_NAME, TagD DISCORDANT_GENE),
                           (ORIENTATION_TAG, TagO ORIENTATION_5P)]\<rparr>]))
   \<and> [[ex_a\<lparr>tags := [(DISCORDANT_TAG_NAME, TagD DISCORDANT_GENE),
                       (ORIENTATION_TAG, TagO ORIENTATION_5P)]\<rparr>],
       [ex_c\<lparr>tags := [(DISCORDANT_TAG_NAME, TagD DISCORDANT_GENE),
                       (ORIENTATION_TAG, TagO ORIENTATION_5P)]\<rparr>]] \<noteq> [[ex_a], [ex_c]]"
proof -
  have i1: "\<forall>r\<in>set (fst ([ex_a], [ex_d])) \<union> set (snd ([ex_a], [ex_d])).
              \<not> is_unmapped r \<longrightarrow> ex_tx_map (tid r) \<noteq> None"
    by (simp add: ex_defs)
  have i2: "\<forall>r\<in>set (fst ([ex_a], [ex_c])) \<union> set (snd ([ex_a], [ex_c])).
              \<not> is_unmapped r \<longrightarrow> ex_tx_map (tid r) \<noteq> None"
    by (simp add: ex_defs)
  have b1: "map_reads_to_references ([ex_a], [ex_d]) ex_tx_map =
              Inr ([(1, [ex_a], [ex_d])], [(10, [ex_a], [ex_d])])"
    by (simp add: map_reads_to_references_def ex_defs)
  have b2: "map_reads_to_references ([ex_a], [ex_c]) ex_tx_map =
              Inr ([(1, [ex_a], []), (3, [], [ex_c])], [(10, [ex_a], []), (30, [], [ex_c])])"
    by (simp add: map_reads_to_references_def ex_defs)
  have s: "\<not> is_reverse ex_a" "\<not> is_reverse ex_c" "is_reverse ex_d" "same_strand ex_ext l = l"
    "get_orientation ex_ext ex_a l = ORIENTATION_5P" "get_orientation ex_ext ex_c l = ORIENTATION_5P"
    "iteritems ex_ext d = d" "tags ex_a = []" "tags ex_c = []" for l d
    by (simp_all add: ex_defs)
  have 1: "classify_read_pairs ex_ext ([ex_a], [ex_d]) 0 False ex_tx_map =
     Inr ([pair_reads ex_a ex_d [(DISCORDANT_TAG_NAME, TagD CONCORDANT_TX)]], [], ([ex_a], [ex_d]))"
    using s
    by (simp add: classify_read_pairs_def b1 classify_binned_closed candidates_def strand_ok_def
        tag_pairs_def copy_read_def)
  from classifier_output_exclusive[OF i2, of ex_ext 0 False]
  obtain ps res pe' where
    r: "classify_read_pairs ex_ext ([ex_a], [ex_c]) 0 False ex_tx_map = Inr (ps, res, pe')"
    and ne: "ps = [] \<and> (fst ([ex_a], [ex_c]) \<noteq> [] \<or> snd ([ex_a], [ex_c]) \<noteq> []) \<longrightarrow>
             res \<noteq> [fst ([ex_a], [ex_c]), snd ([ex_a], [ex_c])]"
    by blast
  have 2: "classify_read_pairs ex_ext ([ex_a], [ex_c]) 0 False ex_tx_map =
     Inr ([],
          [[ex_a\<lparr>tags := [(DISCORDANT_TAG_NAME, TagD DISCORDANT_GENE),
                           (ORIENTATION_TAG, TagO ORIENTATION_5P)]\<rparr>],
           [ex_c\<lparr>tags := [(DISCORDANT_TAG_NAME, TagD DISCORDANT_GENE),
                           (ORIENTATION_TAG, TagO ORIENTATION_5P)]\<rparr>]],
          ([ex_a\<lparr>tags := [(DISCORDANT_TAG_NAME, TagD DISCORDANT_GENE),
                           (ORIENTATION_TAG, TagO ORIENTATION_5P)]\<rparr>],
           [ex_c\<lparr>tags := [(DISCORDANT_TAG_NAME, TagD DISCORDANT_GENE),
                           (ORIENTATION_TAG, TagO ORIENTATION_5P)]\<rparr>]))"
    using s
    by (simp add: classify_read_pairs_def b2 classify_binned_closed candidates_def
        find_discordant_pairs_closed oriented_def annotate_def)
  from r 2 ne have 3: "[[ex_a\<lparr>tags := [(DISCORDANT_TAG_NAME, TagD DISCORDANT_GENE),
                       (ORIENTATION_TAG, TagO ORIENTATION_5P)]\<rparr>],
       [ex_c\<lparr>tags := [(DISCORDANT_TAG_NAME, TagD DISCORDANT_GENE),
                       (ORIENTATION_TAG, TagO ORIENTATION_5P)]\<rparr>]] \<noteq> [[ex_a], [ex_c]]"
    by simp
  from classifier_output_exclusive[OF i1, of ex_ext 0 False] 1 2 3
  show ?thesis by simp
qed

section \<open>Negating strand bits\<close>

text \<open>
  C2, as stated, fails. With a library that expects both mates on one strand, a forward
  alignment of mate 1 and a reverse alignment of mate 2 on transcript 1 get
  DISCORDANT_STRAND_TX; with both strand bits negated the pair gets DISCORDANT_STRAND_TX
  again: negating both bits leaves \<^verbatim>\<open>r1.is_reverse == r2.is_reverse\<close> as it was.
\<close>

theorem strand_flip_counterexample:
  "same_strand ex_ext True
   \<and> classify_read_pairs ex_ext ([ex_a], [ex_d]) 0 True ex_tx_map =
       Inr ([(ex_a\<lparr>tags := [(DISCORDANT_TAG_NAME, TagD DISCORDANT_STRAND_TX)]\<rparr>,
              ex_d\<lparr>tags := [(DISCORDANT_TAG_NAME, TagD DISCORDANT_STRAND_TX)]\<rparr>)], [],
            ([ex_a], [ex_d]))
   \<and> classify_read_pairs ex_ext
        ([ex_a\<lparr>is_reverse := \<not> is_reverse ex_a\<rparr>], [ex_d\<lparr>is_reverse := \<not> is_reverse ex_d\<rparr>])
        0 True ex_tx_map =
       Inr ([(ex_a\<lparr>is_reverse := \<not> is_reverse ex_a,
                   tags := [(DISCORDANT_TAG_NAME, TagD DISCORDANT_STRAND_TX)]\<rparr>,
              ex_d\<lparr>is_reverse := \<not> is_reverse ex_d,
                   tags := [(DISCORDANT_TAG_NAME, TagD DISCORDANT_STRAND_TX)]\<rparr>)], [],
            ([ex_a\<lparr>is_reverse := \<not> is_reverse ex_a\<rparr>], [ex_d\<lparr>is_reverse := \<not> is_reverse ex_d\<rparr>]))"
proof -
  have t: "ex_tx_map 1 = Some \<lparr>tx_tid = 1, cluster_id = 10, tx_strand = False, genome_tid = 7\<rparr>"
    "mset (iteritems ex_ext d) = mset d" for d
    by (simp_all add: ex_tx_map_def ex_ext_def)
  have 1: "classify_read_pairs ex_ext ([ex_a], [ex_d]) 0 True ex_tx_map =
       Inr ([(ex_a\<lparr>tags := [(DISCORDANT_TAG_NAME, TagD DISCORDANT_STRAND_TX)]\<rparr>,
              ex_d\<lparr>tags := [(DISCORDANT_TAG_NAME, TagD DISCORDANT_STRAND_TX)]\<rparr>)], [],
            ([ex_a], [ex_d]))"
    using t by (subst classify_single_pair[where tx = "\<lparr>tx_tid = 1, cluster_id = 10, tx_strand = False, genome_tid = 7\<rparr>"])
      (simp_all add: ex_a_def ex_d_def ex_ext_def pair_reads_def)
  have 2: "classify_read_pairs ex_ext
        ([ex_a\<lparr>is_reverse := \<not> is_reverse ex_a\<rparr>], [ex_d\<lparr>is_reverse := \<not> is_reverse ex_d\<rparr>])
        0 True ex_tx_map =
       Inr ([(ex_a\<lparr>is_reverse := \<not> is_reverse ex_a,
                   tags := [(DISCORDANT_TAG_NAME, TagD DISCORDANT_STRAND_TX)]\<rparr>,
              ex_d\<lparr>is_reverse := \<not> is_reverse ex_d,
                   tags := [(DISCORDANT_TAG_NAME, TagD DISCORDANT_STRAND_TX)]\<rparr>)], [],
            ([ex_a\<lparr>is_reverse := \<not> is_reverse ex_a\<rparr>], [ex_d\<lparr>is_reverse := \<not> is_reverse ex_d\<rparr>]))"
    using t by (subst classify_single_pair[where tx = "\<lparr>tx_tid = 1, cluster_id = 10, tx_strand = False, genome_tid = 7\<rparr>"])
      (simp_all add: ex_a_def ex_d_def ex_ext_def pair_reads_def)
  have 0: "same_strand ex_ext True" by (simp add: ex_ext_def)
  from 0 1 2 show ?thesis by simp
qed

text \<open>
  C2, amended. Let the library expect both mates on one strand, and let \<open>x\<close> and \<open>y\<close> be
  any two records, \<open>x'\<close> and \<open>y'\<close> the same records with the strand bit negated.

  \<^item> The step of the candidate loop (lines 130-139), in whatever state the loop has reached,
    files the pair \<open>(x, y)\<close> under CONCORDANT_TX when the two strand bits agree and under
    DISCORDANT_STRAND_TX when they differ; it files \<open>(x', y)\<close> and \<open>(x, y')\<close> under the
    other tag and \<open>(x', y')\<close> under the same tag as \<open>(x, y)\<close>.
  \<^item> Over a whole dictionary the loop returns every candidate pair whose strand bits agree,
    tagged CONCORDANT_TX, and every candidate pair whose strand bits differ, tagged
    DISCORDANT_STRAND_TX, each in the order of the visit.
  \<^item> When the reference dictionary of a fragment has a candidate, the classifier returns
    the first of these two lists if it is not empty, else the second.
  \<^item> For a fragment of one mapped alignment per mate on one reference (every bucket
    visited once) the classifier returns the one pair, with the tag as in the first item.
\<close>

theorem strand_flip_one_mate:
  fixes X :: "('l, 'g) externals" and x y x' y' :: read and lt mi tm tx pe
    and refdict clusterdict dict :: "int bins" and found_pair :: bool and conc disc :: "pair list"
    and same_tag flipped_tag :: discordant_tag
  assumes lib: "same_strand X lt"
  defines "x' \<equiv> x\<lparr>is_reverse := \<not> is_reverse x\<rparr>"
    and "y' \<equiv> y\<lparr>is_reverse := \<not> is_reverse y\<rparr>"
    and "same_tag \<equiv> (if is_reverse x = is_reverse y then CONCORDANT_TX else DISCORDANT_STRAND_TX)"
    and "flipped_tag \<equiv> (if is_reverse x = is_reverse y then DISCORDANT_STRAND_TX else CONCORDANT_TX)"
  shows "pair_step (same_strand X lt) CONCORDANT_TX DISCORDANT_STRAND_TX x y (found_pair, conc, disc) =
           (if same_tag = CONCORDANT_TX
            then (True, conc @ [pair_reads x y [(DISCORDANT_TAG_NAME, TagD same_tag)]], disc)
            else (True, conc, disc @ [pair_reads x y [(DISCORDANT_TAG_NAME, TagD same_tag)]]))
       \<and> pair_step (same_strand X lt) CONCORDANT_TX DISCORDANT_STRAND_TX x' y (found_pair, conc, disc) =
           (if flipped_tag = CONCORDANT_TX
            then (True, conc @ [pair_reads x' y [(DISCORDANT_TAG_NAME, TagD flipped_tag)]], disc)
            else (True, conc, disc @ [pair_reads x' y [(DISCORDANT_TAG_NAME, TagD flipped_tag)]]))
       \<and> pair_step (same_strand X lt) CONCORDANT_TX DISCORDANT_STRAND_TX x y' (found_pair, conc, disc) =
           (if flipped_tag = CONCORDANT_TX
            then (True, conc @ [pair_reads x y' [(DISCORDANT_TAG_NAME, TagD flipped_tag)]], disc)
            else (True, conc, disc @ [pair_reads x y' [(DISCORDANT_TAG_NAME, TagD flipped_tag)]]))
       \<and> pair_step (same_strand X lt) CONCORDANT_TX DISCORDANT_STRAND_TX x' y' (found_pair, conc, disc) =
           (if same_tag = CONCORDANT_TX
            then (True, conc @ [pair_reads x' y' [(DISCORDANT_TAG_NAME, TagD same_tag)]], disc)
            else (True, conc, disc @ [pair_reads x' y' [(DISCORDANT_TAG_NAME, TagD same_tag)]]))
       \<and> same_tag \<noteq> flipped_tag
       \<and> pair_buckets (same_strand X lt) CONCORDANT_TX DISCORDANT_STRAND_TX dict (False, [], []) =
           (candidates dict \<noteq> [],
            map (\<lambda>p. pair_reads (fst p) (snd p) [(DISCORDANT_TAG_NAME, TagD CONCORDANT_TX)])
              (filter (\<lambda>p. is_reverse (fst p) = is_reverse (snd p)) (candidates dict)),
            map (\<lambda>p. pair_reads (fst p) (snd p) [(DISCORDANT_TAG_NAME, TagD DISCORDANT_STRAND_TX)])
              (filter (\<lambda>p. is_reverse (fst p) \<noteq> is_reverse (snd p)) (candidates dict)))
       \<and> (map_reads_to_references pe tm = Inr (refdict, clusterdict) \<and>
          candidates (iteritems X refdict) \<noteq> [] \<longrightarrow>
            classify_read_pairs X pe mi lt tm =
              Inr (if filter (\<lambda>p. is_reverse (fst p) = is_reverse (snd p))
                        (candidates (iteritems X refdict)) \<noteq> []
                   then map (\<lambda>p. pair_reads (fst p) (snd p) [(DISCORDANT_TAG_NAME, TagD CONCORDANT_TX)])
                          (filter (\<lambda>p. is_reverse (fst p) = is_reverse (snd p))
                             (candidates (iteritems X refdict)))
                   else map (\<lambda>p. pair_reads (fst p) (snd p)
                                   [(DISCORDANT_TAG_NAME, TagD DISCORDANT_STRAND_TX)])
                          (filter (\<lambda>p. is_reverse (fst p) \<noteq> is_reverse (snd p))
                             (candidates (iteritems X refdict))),
                   [], pe))
       \<and> (\<not> is_unmapped x \<and> \<not> is_unmapped y \<and> tid x = tid y \<and> tm (tid x) = Some tx \<and>
          (\<forall>d. mset (iteritems X d) = mset d) \<longrightarrow>
            classify_read_pairs X ([x], [y]) mi lt tm =
              Inr ([pair_reads x y [(DISCORDANT_TAG_NAME, TagD same_tag)]], [], ([x], [y])) \<and>
            classify_read_pairs X ([x'], [y]) mi lt tm =
              Inr ([pair_reads x' y [(DISCORDANT_TAG_NAME, TagD flipped_tag)]], [], ([x'], [y])) \<and>
            classify_read_pairs X ([x], [y']) mi lt tm =
              Inr ([pair_reads x y' [(DISCORDANT_TAG_NAME, TagD flipped_tag)]], [], ([x], [y'])) \<and>
            classify_read_pairs X ([x'], [y']) mi lt tm =
              Inr ([pair_reads x' y' [(DISCORDANT_TAG_NAME, TagD same_tag)]], [], ([x'], [y'])))"
proof -
  have ok: "strand_ok (same_strand X lt) = (\<lambda>p. is_reverse (fst p) = is_reverse (snd p))"
    and nok: "(\<lambda>p. \<not> strand_ok (same_strand X lt) p) = (\<lambda>p. is_reverse (fst p) \<noteq> is_reverse (snd p))"
    using lib by (auto simp: strand_ok_def fun_eq_iff)
  have tp: "tag_pairs t ps = map (\<lambda>p. pair_reads (fst p) (snd p) [(DISCORDANT_TAG_NAME, TagD t)]) ps"
    for t ps
    by (simp add: tag_pairs_def copy_read_def)
  have s1: "pair_step (same_strand X lt) CONCORDANT_TX DISCORDANT_STRAND_TX x y (found_pair, conc, disc) =
           (if same_tag = CONCORDANT_TX
            then (True, conc @ [pair_reads x y [(DISCORDANT_TAG_NAME, TagD same_tag)]], disc)
            else (True, conc, disc @ [pair_reads x y [(DISCORDANT_TAG_NAME, TagD same_tag)]]))"
    using lib by (simp add: pair_step_def copy_read_def same_tag_def)
  have s2: "pair_step (same_strand X lt) CONCORDANT_TX DISCORDANT_STRAND_TX x' y (found_pair, conc, disc) =
           (if flipped_tag = CONCORDANT_TX
            then (True, conc @ [pair_reads x' y [(DISCORDANT_TAG_NAME, TagD flipped_tag)]], disc)
            else (True, conc, disc @ [pair_reads x' y [(DISCORDANT_TAG_NAME, TagD flipped_tag)]]))"
    using lib by (cases "is_reverse x"; cases "is_reverse y")
      (simp_all add: pair_step_def copy_read_def flipped_tag_def x'_def)
  have s3: "pair_step (same_strand X lt) CONCORDANT_TX DISCORDANT_STRAND_TX x y' (found_pair, conc, disc) =
           (if flipped_tag = CONCORDANT_TX
            then (True, conc @ [pair_reads x y' [(DISCORDANT_TAG_NAME, TagD flipped_tag)]], disc)
            else (True, conc, disc @ [pair_reads x y' [(DISCORDANT_TAG_NAME, TagD flipped_tag)]]))"
    using lib by (cases "is_reverse x"; cases "is_reverse y")
      (simp_all add: pair_step_def copy_read_def flipped_tag_def y'_def)
  have s4: "pair_step (same_strand X lt) CONCORDANT_TX DISCORDANT_STRAND_TX x' y' (found_pair, conc, disc) =
           (if same_tag = CONCORDANT_TX
            then (True, conc @ [pair_reads x' y' [(DISCORDANT_TAG_NAME, TagD same_tag)]], disc)
            else (True, conc, disc @ [pair_reads x' y' [(DISCORDANT_TAG_NAME, TagD same_tag)]]))"
    using lib by (cases "is_reverse x"; cases "is_reverse y")
      (simp_all add: pair_step_def copy_read_def same_tag_def x'_def y'_def)
  have ne: "same_tag \<noteq> flipped_tag"
    by (simp add: same_tag_def flipped_tag_def)
  have pb: "pair_buckets (same_strand X lt) CONCORDANT_TX DISCORDANT_STRAND_TX dict (False, [], []) =
           (candidates dict \<noteq> [],
            map (\<lambda>p. pair_reads (fst p) (snd p) [(DISCORDANT_TAG_NAME, TagD CONCORDANT_TX)])
              (filter (\<lambda>p. is_reverse (fst p) = is_reverse (snd p)) (candidates dict)),
            map (\<lambda>p. pair_reads (fst p) (snd p) [(DISCORDANT_TAG_NAME, TagD DISCORDANT_STRAND_TX)])
              (filter (\<lambda>p. is_reverse (fst p) \<noteq> is_reverse (snd p)) (candidates dict)))"
    unfolding pair_buckets_closed ok nok tp by simp
  have cl: "classify_read_pairs X pe mi lt tm =
              Inr (if filter (\<lambda>p. is_reverse (fst p) = is_reverse (snd p))
                        (candidates (iteritems X refdict)) \<noteq> []
                   then map (\<lambda>p. pair_reads (fst p) (snd p) [(DISCORDANT_TAG_NAME, TagD CONCORDANT_TX)])
                          (filter (\<lambda>p. is_reverse (fst p) = is_reverse (snd p))
                             (candidates (iteritems X refdict)))
                   else map (\<lambda>p. pair_reads (fst p) (snd p)
                                   [(DISCORDANT_TAG_NAME, TagD DISCORDANT_STRAND_TX)])
                          (filter (\<lambda>p. is_reverse (fst p) \<noteq> is_reverse (snd p))
                             (candidates (iteritems X refdict))),
                   [], pe)"
    if "map_reads_to_references pe tm = Inr (refdict, clusterdict) \<and>
        candidates (iteritems X refdict) \<noteq> []"
  proof -
    from that have b: "map_reads_to_references pe tm = Inr (refdict, clusterdict)"
      and c: "candidates (iteritems X refdict) \<noteq> []" by simp_all
    show ?thesis
      using c unfolding classify_read_pairs_def b
      by (simp add: classify_binned_closed ok nok tp)
  qed
  have sp: "classify_read_pairs X ([x], [y]) mi lt tm =
              Inr ([pair_reads x y [(DISCORDANT_TAG_NAME, TagD same_tag)]], [], ([x], [y])) \<and>
            classify_read_pairs X ([x'], [y]) mi lt tm =
              Inr ([pair_reads x' y [(DISCORDANT_TAG_NAME, TagD flipped_tag)]], [], ([x'], [y])) \<and>
            classify_read_pairs X ([x], [y']) mi lt tm =
              Inr ([pair_reads x y' [(DISCORDANT_TAG_NAME, TagD flipped_tag)]], [], ([x], [y'])) \<and>
            classify_read_pairs X ([x'], [y']) mi lt tm =
              Inr ([pair_reads x' y' [(DISCORDANT_TAG_NAME, TagD same_tag)]], [], ([x'], [y']))"
    if h: "\<not> is_unmapped x \<and> \<not> is_unmapped y \<and> tid x = tid y \<and> tm (tid x) = Some tx \<and>
          (\<forall>d. mset (iteritems X d) = mset d)"
  proof -
    from h have mapped: "\<not> is_unmapped x" "\<not> is_unmapped y"
      and same_ref: "tid x = tid y" "tm (tid x) = Some tx"
      and every_bucket: "\<And>d. mset (iteritems X d) = mset d"
      by blast+
    have m1: "\<not> is_unmapped x'" "tid x' = tid y" "tm (tid x') = Some tx" "tid x' = tid y'"
      and m2: "\<not> is_unmapped y'" "tid x = tid y'"
      using mapped same_ref by (simp_all add: x'_def y'_def)
    have a: "classify_read_pairs X ([x], [y]) mi lt tm =
              Inr ([pair_reads x y [(DISCORDANT_TAG_NAME, TagD same_tag)]], [], ([x], [y]))"
      using classify_single_pair[where tm = tm and x = x and y = y and X = X and mi = mi and lt = lt,
          OF mapped same_ref every_bucket] lib
      by (simp add: same_tag_def)
    have b: "classify_read_pairs X ([x'], [y]) mi lt tm =
              Inr ([pair_reads x' y [(DISCORDANT_TAG_NAME, TagD flipped_tag)]], [], ([x'], [y]))"
      using classify_single_pair[where tm = tm and x = x' and y = y and X = X and mi = mi and lt = lt,
          OF m1(1) mapped(2) m1(2) m1(3) every_bucket] lib
      by (auto simp: x'_def flipped_tag_def)
    have c: "classify_read_pairs X ([x], [y']) mi lt tm =
              Inr ([pair_reads x y' [(DISCORDANT_TAG_NAME, TagD flipped_tag)]], [], ([x], [y']))"
      using classify_single_pair[where tm = tm and x = x and y = y' and X = X and mi = mi and lt = lt,
          OF mapped(1) m2(1) m2(2) same_ref(2) every_bucket] lib
      by (auto simp: y'_def flipped_tag_def)
    have d: "classify_read_pairs X ([x'], [y']) mi lt tm =
              Inr ([pair_reads x' y' [(DISCORDANT_TAG_NAME, TagD same_tag)]], [], ([x'], [y']))"
      using classify_single_pair[where tm = tm and x = x' and y = y' and X = X and mi = mi and lt = lt,
          OF m1(1) m2(1) m1(4) m1(3) every_bucket] lib
      by (auto simp: x'_def y'_def same_tag_def)
    from a b c d show ?thesis by simp
  qed
  show ?thesis
    by (intro conjI) (rule s1, rule s2, rule s3, rule s4, rule ne, rule pb,
      rule impI, erule cl, rule impI, erule sp)
qed

text \<open>
  A forward alignment of mate 1 and a reverse alignment of mate 2 on transcript 1: the
  step, entered after an earlier candidate was found, files the pair under
  DISCORDANT_STRAND_TX, under CONCORDANT_TX with one bit negated, under
  DISCORDANT_STRAND_TX with both negated. With a second, forward alignment of mate 2 on the
  same transcript the loop files the first candidate under CONCORDANT_TX and the second
  under DISCORDANT_STRAND_TX, and the classifier returns the concordant one.
\<close>

theorem strand_flip_one_mate_witness:
  "pair_step (same_strand ex_ext True) CONCORDANT_TX DISCORDANT_STRAND_TX ex_a ex_d (True, [], []) =
     (True, [], [pair_reads ex_a ex_d [(DISCORDANT_TAG_NAME, TagD DISCORDANT_STRAND_TX)]])
   \<and> pair_step (same_strand ex_ext True) CONCORDANT_TX DISCORDANT_STRAND_TX
        (ex_a\<lparr>is_reverse := True\<rparr>) ex_d (True, [], []) =
     (True, [pair_reads (ex_a\<lparr>is_reverse := True\<rparr>) ex_d [(DISCORDANT_TAG_NAME, TagD CONCORDANT_TX)]], [])
   \<and> pair_step (same_strand ex_ext True) CONCORDANT_TX DISCORDANT_STRAND_TX
        (ex_a\<lparr>is_reverse := True\<rparr>) (ex_d\<lparr>is_reverse := False\<rparr>) (True, [], []) =
     (True, [], [pair_reads (ex_a\<lparr>is_reverse := True\<rparr>) (ex_d\<lparr>is_reverse := False\<rparr>)
                   [(DISCORDANT_TAG_NAME, TagD DISCORDANT_STRAND_TX)]])
   \<and> pair_buckets (same_strand ex_ext True) CONCORDANT_TX DISCORDANT_STRAND_TX
        [(1 :: int, [ex_a], [ex_a\<lparr>pos := 7\<rparr>, ex_d])] (False, [], []) =
     (True,
      [pair_reads ex_a (ex_a\<lparr>pos := 7\<rparr>) [(DISCORDANT_TAG_NAME, TagD CONCORDANT_TX)]],
      [pair_reads ex_a ex_d [(DISCORDANT_TAG_NAME, TagD DISCORDANT_STRAND_TX)]])
   \<and> classify_read_pairs ex_ext ([ex_a], [ex_a\<lparr>pos := 7\<rparr>, ex_d]) 0 True ex_tx_map =
     Inr ([pair_reads ex_a (ex_a\<lparr>pos := 7\<rparr>) [(DISCORDANT_TAG_NAME, TagD CONCORDANT_TX)]], [],
          ([ex_a], [ex_a\<lparr>pos := 7\<rparr>, ex_d]))
   \<and> classify_read_pairs ex_ext ([ex_a], [ex_d]) 0 True ex_tx_map =
     Inr ([pair_reads ex_a ex_d [(DISCORDANT_TAG_NAME, TagD DISCORDANT_STRAND_TX)]], [],
          ([ex_a], [ex_d]))
   \<and> classify_read_pairs ex_ext ([ex_a\<lparr>is_reverse := True\<rparr>], [ex_d]) 0 True ex_tx_map =
     Inr ([pair_reads (ex_a\<lparr>is_reverse := True\<rparr>) ex_d [(DISCORDANT_TAG_NAME, TagD CONCORDANT_TX)]], [],
          ([ex_a\<lparr>is_reverse := True\<rparr>], [ex_d]))
   \<and> classify_read_pairs ex_ext ([ex_a], [ex_d\<lparr>is_reverse := False\<rparr>]) 0 True ex_tx_map =
     Inr ([pair_reads ex_a (ex_d\<lparr>is_reverse := False\<rparr>) [(DISCORDANT_TAG_NAME, TagD CONCORDANT_TX)]], [],
          ([ex_a], [ex_d\<lparr>is_reverse := False\<rparr>]))
   \<and> classify_read_pairs ex_ext ([ex_a\<lparr>is_reverse := True\<rparr>], [ex_d\<lparr>is_reverse := False\<rparr>]) 0 True ex_tx_map =
     Inr ([pair_reads (ex_a\<lparr>is_reverse := True\<rparr>) (ex_d\<lparr>is_reverse := False\<rparr>)
             [(DISCORDANT_TAG_NAME, TagD DISCORDANT_STRAND_TX)]], [],
          ([ex_a\<lparr>is_reverse := True\<rparr>], [ex_d\<lparr>is_reverse := False\<rparr>]))"
proof -
  have lib: "same_strand ex_ext True" by (simp add: ex_ext_def)
  have b: "map_reads_to_references ([ex_a], [ex_a\<lparr>pos := 7\<rparr>, ex_d]) ex_tx_map =
             Inr ([(1, [ex_a], [ex_a\<lparr>pos := 7\<rparr>, ex_d])], [(10, [ex_a], [ex_a\<lparr>pos := 7\<rparr>, ex_d])])"
    by (simp add: map_reads_to_references_def ex_defs)
  have h: "\<not> is_unmapped ex_a" "\<not> is_unmapped ex_d" "tid ex_a = tid ex_d"
    "ex_tx_map (tid ex_a) = Some \<lparr>tx_tid = 1, cluster_id = 10, tx_strand = False, genome_tid = 7\<rparr>"
    "\<forall>d. mset (iteritems ex_ext d) = mset d"
    by (simp_all add: ex_defs)
  have s: "is_reverse ex_a = False" "is_reverse ex_d = True" "iteritems ex_ext d = d" for d
    by (simp_all add: ex_defs)
  have cands: "candidates [(1 :: int, [ex_a], [ex_a\<lparr>pos := 7\<rparr>, ex_d])] =
                 [(ex_a, ex_a\<lparr>pos := 7\<rparr>), (ex_a, ex_d)]"
    by (simp add: candidates_def)
  show ?thesis
    using strand_flip_one_mate[where X = ex_ext and lt = True and x = ex_a and y = ex_d
        and found_pair = True and conc = "[]" and disc = "[]"
        and dict = "[(1, [ex_a], [ex_a\<lparr>pos := 7\<rparr>, ex_d])]"
        and pe = "([ex_a], [ex_a\<lparr>pos := 7\<rparr>, ex_d])" and tm = ex_tx_map
        and refdict = "[(1, [ex_a], [ex_a\<lparr>pos := 7\<rparr>, ex_d])]"
        and clusterdict = "[(10, [ex_a], [ex_a\<lparr>pos := 7\<rparr>, ex_d])]"
        and tx = "\<lparr>tx_tid = 1, cluster_id = 10, tx_strand = False, genome_tid = 7\<rparr>"
        and mi = 0, OF lib] b h
    by (simp add: s cands)
qed

section \<open>The unpaired branch of the dispatcher\<close>

text \<open>
  C1. The claim holds of the decision (\<open>dispatch_zero_count_writes_nothing\<close>: with a
  count of 0 the first branch is taken and the classifier is not run), but not of the
  write. Line 270 calls \<^verbatim>\<open>write_pe_reads(unpairedfh, pe_reads)\<close> while the function is
  \<^verbatim>\<open>write_pe_reads(pe_reads, bamfh)\<close>: the loop runs over the output file and the
  fragment is asked for a \<^verbatim>\<open>write\<close> method. For a fragment whose mate 2 has no
  alignment the result is never the channels with the records of the fragment appended to
  the unpaired channel, whatever iterating over the file yields. In the example the run
  goes on with all channels unchanged; the call of line 284, with the arguments in the
  declared order, would have written the record.
\<close>

theorem unpaired_branch_writes_nothing:
  "dispatch_fragment X mi mh lt tm gm (r # m1, []) ch \<noteq>
     Inr (ch(Unpairedfh := ch Unpairedfh @ r # m1))
   \<and> count_transcriptome_multimaps ex_ext [] ex_genome_map = Inr 0
   \<and> dispatch_fragment ex_ext 0 2 False ex_tx_map ex_genome_map ([ex_a], []) ex_ch = Inr ex_ch
   \<and> ex_ch Unpairedfh = []
   \<and> write_pe_reads ex_ext (PeReads [[ex_a], []]) (Samfile Unpairedfh) ex_ch =
       Inr (ex_ch(Unpairedfh := [ex_a]))"
proof -
  have z: "count_transcriptome_multimaps X [] gm = Inr 0" for X :: "('x, 'y) externals" and gm
    by (simp add: count_transcriptome_multimaps_def)
  have g: "dispatch_fragment X mi mh lt tm gm (r # m1, []) ch \<noteq>
     Inr (ch(Unpairedfh := ch Unpairedfh @ r # m1))"
  proof
    assume a: "dispatch_fragment X mi mh lt tm gm (r # m1, []) ch =
      Inr (ch(Unpairedfh := ch Unpairedfh @ r # m1))"
    then obtain n1 where n1: "count_transcriptome_multimaps X (r # m1) gm = Inr n1"
      by (cases "count_transcriptome_multimaps X (r # m1) gm") (simp_all add: dispatch_fragment_def)
    have "ch(Unpairedfh := ch Unpairedfh @ r # m1) = ch"
      by (rule dispatch_zero_count_writes_nothing[where pe = "(r # m1, [])" and na = n1 and nb = 0
            and X = X and gm = gm, OF _ _ _ a])
         (simp_all add: n1 z)
    then have "(ch(Unpairedfh := ch Unpairedfh @ r # m1)) Unpairedfh = ch Unpairedfh"
      by simp
    then show False by simp
  qed
  have c: "dispatch_fragment ex_ext 0 2 False ex_tx_map ex_genome_map ([ex_a], []) ex_ch = Inr ex_ch"
    by (simp add: dispatch_fragment_def count_transcriptome_multimaps_def write_pe_reads_def ex_defs)
  have w: "write_pe_reads ex_ext (PeReads [[ex_a], []]) (Samfile Unpairedfh) ex_ch =
       Inr (ex_ch(Unpairedfh := [ex_a]))"
    by (simp add: write_pe_reads_file ex_ch_def)
  from g z c w show ?thesis by (simp add: ex_ch_def)
qed

section \<open>The residual of the last state\<close>

text \<open>
  C3. The claim does not hold of the code. Mate 1 aligns forward to transcript 1 and mate 2
  forward to transcript 3 of another cluster: no stage pairs them, both are 5' hits, and
  the classifier returns the empty pair list with the fragment as residual. Both records
  of the residual carry the DISCORDANT_GENE tag and an orientation tag they did not have:
  \<^verbatim>\<open>classify_unpaired_reads\<close> assigns to \<^verbatim>\<open>r.tags\<close> of the records of \<^verbatim>\<open>pe_reads\<close>
  themselves, before any copy is made. The dispatcher writes the tagged records to the
  unpaired channel.
\<close>

theorem unpaired_residual_is_tagged:
  "tags ex_a = [] \<and> tags ex_c = []
   \<and> classify_read_pairs ex_ext ([ex_a], [ex_c]) 0 False ex_tx_map =
     Inr ([],
          [[ex_a\<lparr>tags := [(DISCORDANT_TAG_NAME, TagD DISCORDANT_GENE),
                           (ORIENTATION_TAG, TagO ORIENTATION_5P)]\<rparr>],
           [ex_c\<lparr>tags := [(DISCORDANT_TAG_NAME, TagD DISCORDANT_GENE),
                           (ORIENTATION_TAG, TagO ORIENTATION_5P)]\<rparr>]],
          ([ex_a\<lparr>tags := [(DISCORDANT_TAG_NAME, TagD DISCORDANT_GENE),
                           (ORIENTATION_TAG, TagO ORIENTATION_5P)]\<rparr>],
           [ex_c\<lparr>tags := [(DISCORDANT_TAG_NAME, TagD DISCORDANT_GENE),
                           (ORIENTATION_TAG, TagO ORIENTATION_5P)]\<rparr>]))
   \<and> dispatch_fragment ex_ext 0 2 False ex_tx_map ex_genome_map ([ex_a], [ex_c]) ex_ch =
     Inr (ex_ch(Unpairedfh :=
            [ex_a\<lparr>tags := [(DISCORDANT_TAG_NAME, TagD DISCORDANT_GENE),
                            (ORIENTATION_TAG, TagO ORIENTATION_5P)]\<rparr>,
             ex_c\<lparr>tags := [(DISCORDANT_TAG_NAME, TagD DISCORDANT_GENE),
                            (ORIENTATION_TAG, TagO ORIENTATION_5P)]\<rparr>]))"
proof -
  have b: "map_reads_to_references ([ex_a], [ex_c]) ex_tx_map =
              Inr ([(1, [ex_a], []), (3, [], [ex_c])], [(10, [ex_a], []), (30, [], [ex_c])])"
    by (simp add: map_reads_to_references_def ex_defs)
  have o: "get_orientation ex_ext ex_a False = ORIENTATION_5P"
    "get_orientation ex_ext ex_c False = ORIENTATION_5P"
    by (simp_all add: ex_defs)
  have t: "tags ex_a = []" "tags ex_c = []" by (simp_all add: ex_defs)
  have it: "iteritems ex_ext d = d" for d by (simp add: ex_ext_def)
  have c: "classify_read_pairs ex_ext ([ex_a], [ex_c]) 0 False ex_tx_map =
     Inr ([],
          [[ex_a\<lparr>tags := [(DISCORDANT_TAG_NAME, TagD DISCORDANT_GENE),
                           (ORIENTATION_TAG, TagO ORIENTATION_5P)]\<rparr>],
           [ex_c\<lparr>tags := [(DISCORDANT_TAG_NAME, TagD DISCORDANT_GENE),
                           (ORIENTATION_TAG, TagO ORIENTATION_5P)]\<rparr>]],
          ([ex_a\<lparr>tags := [(DISCORDANT_TAG_NAME, TagD DISCORDANT_GENE),
                           (ORIENTATION_TAG, TagO ORIENTATION_5P)]\<rparr>],
           [ex_c\<lparr>tags := [(DISCORDANT_TAG_NAME, TagD DISCORDANT_GENE),
                           (ORIENTATION_TAG, TagO ORIENTATION_5P)]\<rparr>]))"
    by (simp add: classify_read_pairs_def b classify_binned_closed candidates_def
        find_discordant_pairs_closed oriented_def o annotate_def t it)
  have n: "count_transcriptome_multimaps ex_ext [ex_a] ex_genome_map = Inr 1"
    "count_transcriptome_multimaps ex_ext [ex_c] ex_genome_map = Inr 1"
    by (simp_all add: count_transcriptome_multimaps_def ex_defs)
  have d: "dispatch_fragment ex_ext 0 2 False ex_tx_map ex_genome_map ([ex_a], [ex_c]) ex_ch =
     Inr (ex_ch(Unpairedfh :=
            [ex_a\<lparr>tags := [(DISCORDANT_TAG_NAME, TagD DISCORDANT_GENE),
                            (ORIENTATION_TAG, TagO ORIENTATION_5P)]\<rparr>,
             ex_c\<lparr>tags := [(DISCORDANT_TAG_NAME, TagD DISCORDANT_GENE),
                            (ORIENTATION_TAG, TagO ORIENTATION_5P)]\<rparr>]))"
    by (simp add: dispatch_fragment_def n c write_pe_reads_file) (simp add: ex_ch_def)
  from t c d show ?thesis by simp
qed

end
